theory Spec2Isabelle
  imports Complex_Main "HOL-Library.Log_Nat"
begin

section \<open>Numbers\<close>

text \<open>
  A number of the program is a double: a finite value, which is a rational number, an
  infinity or \<open>NaN\<close>. The two zeros are one value here: the program never divides and
  never tells them apart. Sum and product are the exact result rounded to the nearest
  double, a tie going to the even mantissa, and to an infinity from \<open>2^1024\<close> on.

  \<open>round_double q\<close> is that rounding. With \<open>2^k \<le> |q| < 2^(k+1)\<close> (\<open>k\<close> is \<open>ilog2 |q|\<close>), the
  doubles near \<open>q\<close> are the multiples of \<open>2^e\<close> for \<open>e = k - 52\<close>, and of \<open>2^(-1074)\<close> below the
  normal range; \<open>round_half_even n d\<close> is the integer nearest to \<open>n / d\<close>.
\<close>

datatype number = Finite rat | PosInfinity | NegInfinity | NaN

definition pow2 :: "int \<Rightarrow> rat" where
  "pow2 e = (if 0 \<le> e then 2 ^ nat e else 1 / 2 ^ nat (- e))"

definition ilog2 :: "rat \<Rightarrow> int" where
  "ilog2 q =
     (let (a, b) = quotient_of q;
          d = bitlen a - bitlen b
      in if (if 0 \<le> d then b * 2 ^ nat d \<le> a else b \<le> a * 2 ^ nat (- d)) then d else d - 1)"

definition round_half_even :: "int \<Rightarrow> int \<Rightarrow> int" where
  "round_half_even n d =
     (let f = n div d; r = n mod d
      in if 2 * r < d then f else if d < 2 * r then f + 1 else if even f then f else f + 1)"

definition round_double :: "rat \<Rightarrow> number" where
  "round_double q =
     (if q = 0 then Finite 0
      else
        let (a, b) = quotient_of q;
            e = max (ilog2 \<bar>q\<bar> - 52) (- 1074);
            m = (if 0 \<le> e then round_half_even a (b * 2 ^ nat e)
                 else round_half_even (a * 2 ^ nat (- e)) b);
            v = of_int m * pow2 e
        in if 2 ^ 1024 \<le> v then PosInfinity
           else if v \<le> - (2 ^ 1024) then NegInfinity
           else Finite v)"

text \<open>\<open>x + y\<close>, \<open>x * y\<close> and \<open>x > y\<close> on numbers.\<close>

fun js_add :: "number \<Rightarrow> number \<Rightarrow> number" where
  "js_add (Finite a) (Finite b) = round_double (a + b)"
| "js_add NaN y = NaN"
| "js_add x NaN = NaN"
| "js_add PosInfinity NegInfinity = NaN"
| "js_add NegInfinity PosInfinity = NaN"
| "js_add PosInfinity y = PosInfinity"
| "js_add NegInfinity y = NegInfinity"
| "js_add (Finite a) y = y"

fun js_mul :: "number \<Rightarrow> number \<Rightarrow> number" where
  "js_mul (Finite a) (Finite b) = round_double (a * b)"
| "js_mul NaN y = NaN"
| "js_mul x NaN = NaN"
| "js_mul (Finite a) y =
     (if a = 0 then NaN else if (0 < a) = (y = PosInfinity) then PosInfinity else NegInfinity)"
| "js_mul x (Finite b) =
     (if b = 0 then NaN else if (0 < b) = (x = PosInfinity) then PosInfinity else NegInfinity)"
| "js_mul x y = (if x = y then PosInfinity else NegInfinity)"

fun js_gt :: "number \<Rightarrow> number \<Rightarrow> bool" where
  "js_gt (Finite a) (Finite b) = (b < a)"
| "js_gt NaN y = False"
| "js_gt x NaN = False"
| "js_gt PosInfinity y = (y \<noteq> PosInfinity)"
| "js_gt x NegInfinity = (x \<noteq> NegInfinity)"
| "js_gt x y = False"

section \<open>Values\<close>

text \<open>
  A field of type \<open>number|null\<close> is a \<open>number option\<close> (\<open>None\<close> is \<open>null\<close>).
  An argument of a call is left out, \<open>null\<close>, or a value: a default parameter
  (\<open>width = -1\<close>, \<open>gap = 0\<close>, \<open>shiftChar = null\<close>) replaces only an argument that is
  left out.
\<close>

datatype 'a arg = Omitted | IsNull | Val 'a

text \<open>\<open>x += v\<close> with \<open>v\<close> of type \<open>number|null\<close>: \<open>null\<close> counts as \<open>0\<close>.\<close>

definition to_number :: "number option \<Rightarrow> number" where
  "to_number v = (case v of None \<Rightarrow> Finite 0 | Some n \<Rightarrow> n)"

record IPosition =
  pos_x :: number
  pos_y :: number

record ISize =
  width :: "number option"
  height :: "number option"

datatype KeyState = NeverPressed | Pressed | Down

text \<open>
  \<open>KeyShape\<close>. The field \<open>size\<close> is \<open>key_size\<close> here; the DOM element \<open>$ref\<close> carries
  no state of the tracker and is left out.
\<close>

record KeyShape =
  displayChar :: string
  shiftDisplayChar :: string
  keyCode :: string
  key_size :: ISize
  position :: IPosition
  zIndex :: "string option"
  state :: KeyState

definition KeyShape_new :: "string \<Rightarrow> string \<Rightarrow> KeyShape" where
  "KeyShape_new char kc =
     \<lparr>displayChar = char, shiftDisplayChar = '' '', keyCode = kc,
      key_size = \<lparr>width = Some (Finite 20), height = Some (Finite 20)\<rparr>,
      position = \<lparr>pos_x = Finite 0, pos_y = Finite 0\<rparr>,
      zIndex = None, state = NeverPressed\<rparr>"

text \<open>
  \<open>Keyboard\<close>. Key objects live in \<open>keys\<close> only, so a reference to a key is its index in
  \<open>keys\<close>; \<open>key_map\<close> is the private \<open>#map\<close>: the own properties of that object, from
  key code to key reference. (A key with the code \<open>__proto__\<close> is outside the model: the
  write \<open>#map['__proto__'] = key\<close> would set the prototype of the map and add no property.
  No layout has such a key.) The root element \<open>$dom\<close> is left out.
\<close>

record Keyboard =
  keys :: "KeyShape list"
  nextRowPosition :: IPosition
  startPosition :: IPosition
  keySize :: ISize
  key_map :: "string \<rightharpoonup> nat"

record KeyboardRow =
  row_position :: IPosition
  nextPosition :: IPosition

text \<open>Records are values, so a deep copy of one is the record itself.\<close>

definition deepCopy :: "'a \<Rightarrow> 'a" where
  "deepCopy obj = obj"

definition applyDefaultsTo :: "ISize \<Rightarrow> ISize \<Rightarrow> ISize" where
  "applyDefaultsTo obj defaults =
     (let copy = deepCopy obj in
      \<lparr>width = (case width copy of None \<Rightarrow> width defaults | Some w \<Rightarrow> Some w),
       height = (case height copy of None \<Rightarrow> height defaults | Some h \<Rightarrow> Some h)\<rparr>)"

section \<open>Layout builder\<close>

definition Keyboard_new :: Keyboard where
  "Keyboard_new =
     (let start = \<lparr>pos_x = Finite 10, pos_y = Finite 10\<rparr> in
      \<lparr>keys = [], nextRowPosition = deepCopy start, startPosition = start,
       keySize = \<lparr>width = Some (Finite 20), height = Some (Finite 20)\<rparr>,
       key_map = Map.empty\<rparr>)"

definition Keyboard_addKey :: "Keyboard \<Rightarrow> KeyShape \<Rightarrow> Keyboard" where
  "Keyboard_addKey kb key =
     kb\<lparr>keys := keys kb @ [key],
        key_map := (key_map kb)(keyCode key \<mapsto> length (keys kb))\<rparr>"

definition KeyboardRow_new :: "IPosition \<Rightarrow> KeyboardRow" where
  "KeyboardRow_new p = \<lparr>row_position = deepCopy p, nextPosition = deepCopy (deepCopy p)\<rparr>"

definition nextRow :: "Keyboard \<Rightarrow> number arg \<Rightarrow> KeyboardRow \<times> Keyboard" where
  "nextRow kb gap =
     (let g = (case gap of Omitted \<Rightarrow> Finite 0 | IsNull \<Rightarrow> to_number None | Val n \<Rightarrow> n);
          p1 = (nextRowPosition kb)\<lparr>pos_y := js_add (pos_y (nextRowPosition kb)) g\<rparr>;
          row = KeyboardRow_new p1;
          p2 = p1\<lparr>pos_x := pos_x (startPosition kb)\<rparr>;
          p3 = p2\<lparr>pos_y := js_add (pos_y p2) (to_number (height (keySize kb)))\<rparr>
      in (row, kb\<lparr>nextRowPosition := p3\<rparr>))"

text \<open>
  \<open>KeyboardRow.addKey\<close>. The row's keyboard is passed along; the result is the reference
  to the new key, the row and the keyboard. \<open>width > 0 ? width : null\<close> is false for
  \<open>null\<close>; \<open>if (shiftChar)\<close> is false for \<open>null\<close> and for the empty string.
\<close>

definition Row_addKey ::
  "KeyboardRow \<Rightarrow> Keyboard \<Rightarrow> string \<Rightarrow> string \<Rightarrow> number arg \<Rightarrow> string arg
     \<Rightarrow> nat \<times> KeyboardRow \<times> Keyboard" where
  "Row_addKey row kb dc kc width_arg shift_arg =
     (let w = (case width_arg of Omitted \<Rightarrow> Val (Finite (- 1)) | a \<Rightarrow> a);
          shiftChar = (case shift_arg of Omitted \<Rightarrow> IsNull | a \<Rightarrow> a);
          key = KeyShape_new dc kc;
          key = (case shiftChar of Val s \<Rightarrow> if s \<noteq> [] then key\<lparr>shiftDisplayChar := s\<rparr> else key
                 | _ \<Rightarrow> key);
          key = key\<lparr>position := deepCopy (nextPosition row)\<rparr>;
          key = key\<lparr>key_size := (key_size key)
                  \<lparr>width := (case w of Val n \<Rightarrow> if js_gt n (Finite 0) then Some n else None
                             | _ \<Rightarrow> None)\<rparr>\<rparr>;
          key = key\<lparr>key_size := (key_size key)\<lparr>height := None\<rparr>\<rparr>;
          sz = applyDefaultsTo (key_size key) (keySize kb);
          row' = row\<lparr>nextPosition := (nextPosition row)
                   \<lparr>pos_x := js_add (pos_x (nextPosition row)) (to_number (width sz))\<rparr>\<rparr>
      in (length (keys kb), row', Keyboard_addKey kb key))"

definition Row_addGap :: "KeyboardRow \<Rightarrow> number \<Rightarrow> KeyboardRow" where
  "Row_addGap row w =
     row\<lparr>nextPosition := (nextPosition row)\<lparr>pos_x := js_add (pos_x (nextPosition row)) w\<rparr>\<rparr>"

text \<open>
  A write through a key reference (\<open>key.size.height = ...\<close>, \<open>key.keyCode = ...\<close>): the
  key object the reference points to is replaced by the changed one. A reference is what
  \<open>addKey\<close> returned or what the index holds, the position of a key in \<open>keys\<close>; the program
  has no other, and for a number that is no such position the keyboard is left as it is.
\<close>

definition update_key :: "Keyboard \<Rightarrow> nat \<Rightarrow> (KeyShape \<Rightarrow> KeyShape) \<Rightarrow> Keyboard" where
  "update_key kb r f = kb\<lparr>keys := (keys kb)[r := f (keys kb ! r)]\<rparr>"

text \<open>The writes the layouts make: \<open>key.size.height = v\<close>, \<open>key.zIndex = z\<close>,
  \<open>key.position.x = v\<close>, \<open>key.position.y += d\<close> and \<open>key.keyCode = c\<close>.\<close>

definition set_size_height :: "Keyboard \<Rightarrow> nat \<Rightarrow> number \<Rightarrow> Keyboard" where
  "set_size_height kb r v = update_key kb r (\<lambda>k. k\<lparr>key_size := (key_size k)\<lparr>height := Some v\<rparr>\<rparr>)"

definition set_zIndex :: "Keyboard \<Rightarrow> nat \<Rightarrow> string \<Rightarrow> Keyboard" where
  "set_zIndex kb r z = update_key kb r (\<lambda>k. k\<lparr>zIndex := Some z\<rparr>)"

definition set_position_x :: "Keyboard \<Rightarrow> nat \<Rightarrow> number \<Rightarrow> Keyboard" where
  "set_position_x kb r v = update_key kb r (\<lambda>k. k\<lparr>position := (position k)\<lparr>pos_x := v\<rparr>\<rparr>)"

definition add_position_y :: "Keyboard \<Rightarrow> nat \<Rightarrow> number \<Rightarrow> Keyboard" where
  "add_position_y kb r d =
     update_key kb r (\<lambda>k. k\<lparr>position := (position k)\<lparr>pos_y := js_add (pos_y (position k)) d\<rparr>\<rparr>)"

definition set_keyCode :: "Keyboard \<Rightarrow> nat \<Rightarrow> string \<Rightarrow> Keyboard" where
  "set_keyCode kb r c = update_key kb r (\<lambda>k. k\<lparr>keyCode := c\<rparr>)"

text \<open>\<open>remap\<close>: the index is emptied and filled again from \<open>keys\<close>, in order.\<close>

fun remap_loop :: "KeyShape list \<Rightarrow> nat \<Rightarrow> (string \<rightharpoonup> nat) \<Rightarrow> (string \<rightharpoonup> nat)" where
  "remap_loop [] i m = m"
| "remap_loop (key # rest) i m = remap_loop rest (Suc i) (m(keyCode key \<mapsto> i))"

definition remap :: "Keyboard \<Rightarrow> Keyboard" where
  "remap kb = kb\<lparr>key_map := remap_loop (keys kb) 0 Map.empty\<rparr>"

section \<open>Key-state tracker\<close>

text \<open>
  \<open>#map\<close> is created as \<open>{}\<close>, an ordinary object. Reading \<open>this.#map[keyCode]\<close> gives the
  own property of that name when there is one; otherwise the lookup goes on to
  \<open>Object.prototype\<close> and gives its member of that name (a function, or for
  \<open>__proto__\<close> the prototype object itself); otherwise \<open>undefined\<close>.
  \<open>Object_prototype_names\<close> are the members the language gives \<open>Object.prototype\<close>; the
  model takes it that nothing has been added to them, so what \<open>map_get\<close> gives for a name
  that is no own property holds until something is added (as a dispatch of \<open>__proto__\<close>
  does, which writes \<open>state\<close> there).
\<close>

definition Object_prototype_names :: "string list" where
  "Object_prototype_names =
     [''__defineGetter__'', ''__defineSetter__'', ''__lookupGetter__'', ''__lookupSetter__'',
      ''__proto__'', ''constructor'', ''hasOwnProperty'', ''isPrototypeOf'',
      ''propertyIsEnumerable'', ''toLocaleString'', ''toString'', ''valueOf'']"

datatype ref = Undefined | NullRef | KeyRef nat | BuiltIn string

definition map_get :: "(string \<rightharpoonup> nat) \<Rightarrow> string \<Rightarrow> ref" where
  "map_get m k =
     (case m k of
        Some r \<Rightarrow> KeyRef r
      | None \<Rightarrow> if k \<in> set Object_prototype_names then BuiltIn k else Undefined)"

datatype error = TypeError

text \<open>
  \<open>onKeyDown\<close> and \<open>onKeyUp\<close>. Of the values a lookup gives, \<open>if (key)\<close> fails for
  \<open>undefined\<close> alone, and the method returns. For a key the state is written and the key
  rendered; \<open>renderKey\<close> writes to the DOM only. For a member of \<open>Object.prototype\<close> the
  test passes as well: \<open>key.state = ...\<close> is written on that object, which is no part of
  the keyboard, and \<open>renderKey\<close> reads \<open>key.$ref.parentElement\<close>, where \<open>$ref\<close> of such an
  object is \<open>undefined\<close>: a TypeError, with no key of the keyboard touched.
\<close>

definition set_state :: "Keyboard \<Rightarrow> nat \<Rightarrow> KeyState \<Rightarrow> Keyboard" where
  "set_state kb r s = update_key kb r (\<lambda>key. key\<lparr>state := s\<rparr>)"

definition onKeyDown :: "Keyboard \<Rightarrow> string \<Rightarrow> error + Keyboard" where
  "onKeyDown kb kc =
     (case map_get (key_map kb) kc of
        KeyRef r \<Rightarrow> Inr (set_state kb r Down)
      | BuiltIn n \<Rightarrow> Inl TypeError
      | _ \<Rightarrow> Inr kb)"

definition onKeyUp :: "Keyboard \<Rightarrow> string \<Rightarrow> error + Keyboard" where
  "onKeyUp kb kc =
     (case map_get (key_map kb) kc of
        KeyRef r \<Rightarrow> Inr (set_state kb r Pressed)
      | BuiltIn n \<Rightarrow> Inl TypeError
      | _ \<Rightarrow> Inr kb)"

definition clear :: "Keyboard \<Rightarrow> Keyboard" where
  "clear kb = kb\<lparr>keys := map (\<lambda>key. key\<lparr>state := NeverPressed\<rparr>) (keys kb)\<rparr>"

text \<open>
  \<open>getKey\<close>: the value returned and the lines written with \<open>console.error\<close>. The test
  is \<open>key === null\<close>, which holds for \<open>null\<close> only.
\<close>

definition getKey :: "Keyboard \<Rightarrow> string \<Rightarrow> ref \<times> string list" where
  "getKey kb kc =
     (let key = map_get (key_map kb) kc in
      if key = NullRef then (NullRef, [''could not find key '' @ kc]) else (key, []))"

text \<open>
  The tester's event handlers: \<open>document.onkeydown\<close> and \<open>document.onkeyup\<close> pass
  \<open>event.code\<close> to the keyboard, the clear button calls \<open>clear\<close>. An exception ends the
  handler it is thrown in; the keyboard stays as the handler left it.
\<close>

datatype Event = KeyDownEvent string | KeyUpEvent string | ClearEvent

fun dispatch :: "Keyboard \<Rightarrow> Event \<Rightarrow> Keyboard" where
  "dispatch kb (KeyDownEvent kc) = (case onKeyDown kb kc of Inr kb' \<Rightarrow> kb' | Inl e \<Rightarrow> kb)"
| "dispatch kb (KeyUpEvent kc) = (case onKeyUp kb kc of Inr kb' \<Rightarrow> kb' | Inl e \<Rightarrow> kb)"
| "dispatch kb ClearEvent = clear kb"

definition dispatch_all :: "Keyboard \<Rightarrow> Event list \<Rightarrow> Keyboard" where
  "dispatch_all kb evs = foldl dispatch kb evs"

section \<open>Layout catalog\<close>

text \<open>
  Labels outside ASCII are written as the bytes of their UTF-8 encoding; the backslash, the
  quotes and the backquote are written by their codes.
\<close>

definition arrow_left :: string where "arrow_left = [CHR 0xE2, CHR 0x86, CHR 0x90]"
definition arrow_up :: string where "arrow_up = [CHR 0xE2, CHR 0x86, CHR 0x91]"
definition arrow_right :: string where "arrow_right = [CHR 0xE2, CHR 0x86, CHR 0x92]"
definition arrow_down :: string where "arrow_down = [CHR 0xE2, CHR 0x86, CHR 0x93]"
definition mac_control :: string where "mac_control = [CHR 0xE2, CHR 0x8C, CHR 0x83]"
definition mac_option :: string where "mac_option = [CHR 0xE2, CHR 0x8C, CHR 0xA5]"
definition mac_command :: string where "mac_command = [CHR 0xE2, CHR 0x8C, CHR 0x98]"
definition backslash :: string where "backslash = [CHR 0x5C]"
definition apostrophe :: string where "apostrophe = [CHR 0x27]"
definition double_quote :: string where "double_quote = [CHR 0x22]"
definition backquote :: string where "backquote = [CHR 0x60]"

text \<open>
  Each factory of \<open>KeyboardDefinitions\<close> creates a keyboard and fills it row by row, every
  row in a block of its own. A block is a function on the keyboard: \<open>row\<close> and the key
  references bound in it are local to the block. One binding stands for one statement.
\<close>

subsection \<open>\<open>getWindowsLogitechKeyboard\<close>\<close>

definition getWindowsLogitechKeyboard_row1 :: "Keyboard \<Rightarrow> Keyboard" where
  "getWindowsLogitechKeyboard_row1 keyboard =
    (let (row, keyboard) = nextRow keyboard Omitted;
         (_, row, keyboard) = Row_addKey row keyboard ''Esc'' ''Escape'' Omitted Omitted;
         row = Row_addGap row (Finite 15);
         (_, row, keyboard) = Row_addKey row keyboard ''F1'' ''F1'' Omitted Omitted;
         (_, row, keyboard) = Row_addKey row keyboard ''F2'' ''F2'' Omitted Omitted;
         (_, row, keyboard) = Row_addKey row keyboard ''F3'' ''F3'' Omitted Omitted;
         (_, row, keyboard) = Row_addKey row keyboard ''F4'' ''F4'' Omitted Omitted;
         row = Row_addGap row (Finite 15);
         (_, row, keyboard) = Row_addKey row keyboard ''F5'' ''F5'' Omitted Omitted;
         (_, row, keyboard) = Row_addKey row keyboard ''F6'' ''F6'' Omitted Omitted;
         (_, row, keyboard) = Row_addKey row keyboard ''F7'' ''F7'' Omitted Omitted;
         (_, row, keyboard) = Row_addKey row keyboard ''F8'' ''F8'' Omitted Omitted;
         row = Row_addGap row (Finite 15);
         (_, row, keyboard) = Row_addKey row keyboard ''F9'' ''F9'' Omitted Omitted;
         (_, row, keyboard) = Row_addKey row keyboard ''F10'' ''F10'' Omitted Omitted;
         (_, row, keyboard) = Row_addKey row keyboard ''F11'' ''F11'' Omitted Omitted;
         (_, row, keyboard) = Row_addKey row keyboard ''F12'' ''F12'' Omitted Omitted;
         row = Row_addGap row (Finite 10);
         (_, row, keyboard) = Row_addKey row keyboard ''prsc'' ''f13'' Omitted Omitted;
         (_, row, keyboard) = Row_addKey row keyboard ''sclk'' ''ScrollLock'' Omitted Omitted;
         (_, row, keyboard) = Row_addKey row keyboard ''pause'' ''Pause'' Omitted Omitted
     in keyboard)"

definition getWindowsLogitechKeyboard_row2 :: "Keyboard \<Rightarrow> Keyboard" where
  "getWindowsLogitechKeyboard_row2 keyboard =
    (let (row, keyboard) = nextRow keyboard (Val (Finite 5));
         (_, row, keyboard) = Row_addKey row keyboard backquote ''Backquote'' IsNull (Val ''~'');
         (_, row, keyboard) = Row_addKey row keyboard ''1'' ''Digit1'' IsNull (Val ''!'');
         (_, row, keyboard) = Row_addKey row keyboard ''2'' ''Digit2'' IsNull (Val ''@'');
         (_, row, keyboard) = Row_addKey row keyboard ''3'' ''Digit3'' IsNull (Val ''#'');
         (_, row, keyboard) = Row_addKey row keyboard ''4'' ''Digit4'' IsNull (Val ''$'');
         (_, row, keyboard) = Row_addKey row keyboard ''5'' ''Digit5'' IsNull (Val ''%'');
         (_, row, keyboard) = Row_addKey row keyboard ''6'' ''Digit6'' IsNull (Val ''^'');
         (_, row, keyboard) = Row_addKey row keyboard ''7'' ''Digit7'' IsNull (Val ''&'');
         (_, row, keyboard) = Row_addKey row keyboard ''8'' ''Digit8'' IsNull (Val ''*'');
         (_, row, keyboard) = Row_addKey row keyboard ''9'' ''Digit9'' IsNull (Val ''('');
         (_, row, keyboard) = Row_addKey row keyboard ''0'' ''Digit0'' IsNull (Val '')'');
         (_, row, keyboard) = Row_addKey row keyboard ''-'' ''Minus'' IsNull (Val ''_'');
         (_, row, keyboard) = Row_addKey row keyboard ''='' ''Equal'' IsNull (Val ''+'');
         (_, row, keyboard) = Row_addKey row keyboard ''Backspace'' ''Backspace'' (Val (Finite 45)) Omitted;
         row = Row_addGap row (Finite 10);
         (_, row, keyboard) = Row_addKey row keyboard ''ins'' ''Insert'' Omitted Omitted;
         (_, row, keyboard) = Row_addKey row keyboard ''home'' ''Home'' Omitted Omitted;
         (_, row, keyboard) = Row_addKey row keyboard ''pgup'' ''PageUp'' Omitted Omitted;
         row = Row_addGap row (Finite 10);
         (_, row, keyboard) = Row_addKey row keyboard ''numlock'' ''NumLock'' Omitted Omitted;
         (_, row, keyboard) = Row_addKey row keyboard ''/'' ''NumpadDivide'' Omitted Omitted;
         (_, row, keyboard) = Row_addKey row keyboard ''*'' ''NumpadMultiply'' Omitted Omitted;
         (_, row, keyboard) = Row_addKey row keyboard ''-'' ''NumpadSubtract'' Omitted Omitted
     in keyboard)"

definition getWindowsLogitechKeyboard_row3 :: "Keyboard \<Rightarrow> Keyboard" where
  "getWindowsLogitechKeyboard_row3 keyboard =
    (let (row, keyboard) = nextRow keyboard Omitted;
         (_, row, keyboard) = Row_addKey row keyboard ''Tab'' ''Tab'' (Val (Finite 30)) Omitted;
         (_, row, keyboard) = Row_addKey row keyboard ''q'' ''KeyQ'' Omitted Omitted;
         (_, row, keyboard) = Row_addKey row keyboard ''w'' ''KeyW'' Omitted Omitted;
         (_, row, keyboard) = Row_addKey row keyboard ''e'' ''KeyE'' Omitted Omitted;
         (_, row, keyboard) = Row_addKey row keyboard ''r'' ''KeyR'' Omitted Omitted;
         (_, row, keyboard) = Row_addKey row keyboard ''t'' ''KeyT'' Omitted Omitted;
         (_, row, keyboard) = Row_addKey row keyboard ''y'' ''KeyY'' Omitted Omitted;
         (_, row, keyboard) = Row_addKey row keyboard ''u'' ''KeyU'' Omitted Omitted;
         (_, row, keyboard) = Row_addKey row keyboard ''i'' ''KeyI'' Omitted Omitted;
         (_, row, keyboard) = Row_addKey row keyboard ''o'' ''KeyO'' Omitted Omitted;
         (_, row, keyboard) = Row_addKey row keyboard ''p'' ''KeyP'' Omitted Omitted;
         (_, row, keyboard) = Row_addKey row keyboard ''['' ''BracketLeft'' Omitted Omitted;
         (_, row, keyboard) = Row_addKey row keyboard '']'' ''BracketRight'' Omitted Omitted;
         (_, row, keyboard) = Row_addKey row keyboard backslash ''Backslash'' (Val (Finite 35)) Omitted;
         row = Row_addGap row (Finite 10);
         (_, row, keyboard) = Row_addKey row keyboard ''del'' ''Delete'' Omitted Omitted;
         (_, row, keyboard) = Row_addKey row keyboard ''end'' ''End'' Omitted Omitted;
         (_, row, keyboard) = Row_addKey row keyboard ''pgdn'' ''PageDown'' Omitted Omitted;
         row = Row_addGap row (Finite 10);
         (_, row, keyboard) = Row_addKey row keyboard ''7'' ''Numpad7'' Omitted Omitted;
         (_, row, keyboard) = Row_addKey row keyboard ''8'' ''Numpad8'' Omitted Omitted;
         (_, row, keyboard) = Row_addKey row keyboard ''9'' ''Numpad9'' Omitted Omitted;
         (addKey, row, keyboard) = Row_addKey row keyboard ''+'' ''NumpadAdd'' Omitted Omitted;
         keyboard = set_size_height keyboard addKey (js_mul (to_number (height (keySize keyboard))) (Finite 2))
     in keyboard)"

definition getWindowsLogitechKeyboard_row4 :: "Keyboard \<Rightarrow> Keyboard" where
  "getWindowsLogitechKeyboard_row4 keyboard =
    (let (row, keyboard) = nextRow keyboard Omitted;
         (_, row, keyboard) = Row_addKey row keyboard ''Caps'' ''CapsLock'' (Val (Finite 35)) Omitted;
         (_, row, keyboard) = Row_addKey row keyboard ''a'' ''KeyA'' Omitted Omitted;
         (_, row, keyboard) = Row_addKey row keyboard ''s'' ''KeyS'' Omitted Omitted;
         (_, row, keyboard) = Row_addKey row keyboard ''d'' ''KeyD'' Omitted Omitted;
         (_, row, keyboard) = Row_addKey row keyboard ''f'' ''KeyF'' Omitted Omitted;
         (_, row, keyboard) = Row_addKey row keyboard ''g'' ''KeyG'' Omitted Omitted;
         (_, row, keyboard) = Row_addKey row keyboard ''h'' ''KeyH'' Omitted Omitted;
         (_, row, keyboard) = Row_addKey row keyboard ''j'' ''KeyJ'' Omitted Omitted;
         (_, row, keyboard) = Row_addKey row keyboard ''k'' ''KeyK'' Omitted Omitted;
         (_, row, keyboard) = Row_addKey row keyboard ''l'' ''KeyL'' Omitted Omitted;
         (_, row, keyboard) = Row_addKey row keyboard '';'' ''Semicolon'' IsNull (Val '':'');
         (_, row, keyboard) = Row_addKey row keyboard apostrophe ''Quote'' IsNull (Val double_quote);
         (_, row, keyboard) = Row_addKey row keyboard ''Enter'' ''Enter'' (Val (Finite 50)) Omitted;
         row = Row_addGap row (Finite 80);
         (_, row, keyboard) = Row_addKey row keyboard ''4'' ''Numpad4'' Omitted Omitted;
         (_, row, keyboard) = Row_addKey row keyboard ''5'' ''Numpad5'' Omitted Omitted;
         (_, row, keyboard) = Row_addKey row keyboard ''6'' ''Numpad6'' Omitted Omitted
     in keyboard)"

definition getWindowsLogitechKeyboard_row5 :: "Keyboard \<Rightarrow> Keyboard" where
  "getWindowsLogitechKeyboard_row5 keyboard =
    (let (row, keyboard) = nextRow keyboard Omitted;
         (_, row, keyboard) = Row_addKey row keyboard ''Shift'' ''ShiftLeft'' (Val (Finite 45)) Omitted;
         (_, row, keyboard) = Row_addKey row keyboard ''z'' ''KeyZ'' Omitted Omitted;
         (_, row, keyboard) = Row_addKey row keyboard ''x'' ''KeyX'' Omitted Omitted;
         (_, row, keyboard) = Row_addKey row keyboard ''c'' ''KeyC'' Omitted Omitted;
         (_, row, keyboard) = Row_addKey row keyboard ''v'' ''KeyV'' Omitted Omitted;
         (_, row, keyboard) = Row_addKey row keyboard ''b'' ''KeyB'' Omitted Omitted;
         (_, row, keyboard) = Row_addKey row keyboard ''n'' ''KeyN'' Omitted Omitted;
         (_, row, keyboard) = Row_addKey row keyboard ''m'' ''KeyM'' Omitted Omitted;
         (_, row, keyboard) = Row_addKey row keyboard '','' ''Comma'' IsNull (Val ''<'');
         (_, row, keyboard) = Row_addKey row keyboard ''.'' ''Period'' IsNull (Val ''>'');
         (_, row, keyboard) = Row_addKey row keyboard ''/'' ''Slash'' IsNull (Val ''?'');
         (_, row, keyboard) = Row_addKey row keyboard ''Shift'' ''ShiftRight'' (Val (Finite 60)) Omitted;
         row = Row_addGap row (Finite 10);
         row = Row_addGap row (Finite 20);
         (_, row, keyboard) = Row_addKey row keyboard arrow_up ''ArrowUp'' Omitted Omitted;
         row = Row_addGap row (Finite 20);
         row = Row_addGap row (Finite 10);
         (_, row, keyboard) = Row_addKey row keyboard ''1'' ''Numpad1'' Omitted Omitted;
         (_, row, keyboard) = Row_addKey row keyboard ''2'' ''Numpad2'' Omitted Omitted;
         (_, row, keyboard) = Row_addKey row keyboard ''3'' ''Numpad3'' Omitted Omitted;
         (enterKey, row, keyboard) = Row_addKey row keyboard ''Enter'' ''NumpadEnter'' Omitted Omitted;
         keyboard = set_size_height keyboard enterKey (js_mul (to_number (height (keySize keyboard))) (Finite 2))
     in keyboard)"

definition getWindowsLogitechKeyboard_row6 :: "Keyboard \<Rightarrow> Keyboard" where
  "getWindowsLogitechKeyboard_row6 keyboard =
    (let (row, keyboard) = nextRow keyboard Omitted;
         (_, row, keyboard) = Row_addKey row keyboard ''Ctrl'' ''ControlLeft'' (Val (Finite 30)) Omitted;
         (_, row, keyboard) = Row_addKey row keyboard ''Win'' ''MetaLeft'' (Val (Finite 25)) Omitted;
         (_, row, keyboard) = Row_addKey row keyboard ''Alt'' ''AltLeft'' (Val (Finite 25)) Omitted;
         (_, row, keyboard) = Row_addKey row keyboard ''space'' ''Space'' (Val (Finite 120)) Omitted;
         (_, row, keyboard) = Row_addKey row keyboard ''Alt'' ''AltRight'' (Val (Finite 30)) Omitted;
         (_, row, keyboard) = Row_addKey row keyboard ''Menu'' ''ContextMenu'' (Val (Finite 35)) Omitted;
         (_, row, keyboard) = Row_addKey row keyboard ''Ctrl'' ''ControlRight'' (Val (Finite 40)) Omitted;
         row = Row_addGap row (Finite 10);
         (_, row, keyboard) = Row_addKey row keyboard arrow_left ''ArrowLeft'' Omitted Omitted;
         (_, row, keyboard) = Row_addKey row keyboard arrow_down ''ArrowDown'' Omitted Omitted;
         (_, row, keyboard) = Row_addKey row keyboard arrow_right ''ArrowRight'' Omitted Omitted;
         row = Row_addGap row (Finite 10);
         (_, row, keyboard) = Row_addKey row keyboard ''0'' ''Numpad0'' (Val (Finite 40)) Omitted;
         (_, row, keyboard) = Row_addKey row keyboard ''.'' ''NumpadDecimal'' Omitted Omitted
     in keyboard)"

definition getWindowsLogitechKeyboard :: Keyboard where
  "getWindowsLogitechKeyboard =
    (let keyboard = Keyboard_new;
         keyboard = getWindowsLogitechKeyboard_row1 keyboard;
         keyboard = getWindowsLogitechKeyboard_row2 keyboard;
         keyboard = getWindowsLogitechKeyboard_row3 keyboard;
         keyboard = getWindowsLogitechKeyboard_row4 keyboard;
         keyboard = getWindowsLogitechKeyboard_row5 keyboard;
         keyboard = getWindowsLogitechKeyboard_row6 keyboard
     in keyboard)"

subsection \<open>\<open>getWindowsHPDesktopKeyboard\<close>\<close>

definition getWindowsHPDesktopKeyboard_row1 :: "Keyboard \<Rightarrow> Keyboard" where
  "getWindowsHPDesktopKeyboard_row1 keyboard =
    (let (row, keyboard) = nextRow keyboard Omitted;
         (_, row, keyboard) = Row_addKey row keyboard ''Esc'' ''Escape'' Omitted Omitted;
         row = Row_addGap row (Finite 19);
         (_, row, keyboard) = Row_addKey row keyboard ''F1'' ''F1'' Omitted Omitted;
         (_, row, keyboard) = Row_addKey row keyboard ''F2'' ''F2'' Omitted Omitted;
         (_, row, keyboard) = Row_addKey row keyboard ''F3'' ''F3'' Omitted Omitted;
         (_, row, keyboard) = Row_addKey row keyboard ''F4'' ''F4'' Omitted Omitted;
         row = Row_addGap row (Finite 13);
         (_, row, keyboard) = Row_addKey row keyboard ''F5'' ''F5'' Omitted Omitted;
         (_, row, keyboard) = Row_addKey row keyboard ''F6'' ''F6'' Omitted Omitted;
         (_, row, keyboard) = Row_addKey row keyboard ''F7'' ''F7'' Omitted Omitted;
         (_, row, keyboard) = Row_addKey row keyboard ''F8'' ''F8'' Omitted Omitted;
         row = Row_addGap row (Finite 13);
         (_, row, keyboard) = Row_addKey row keyboard ''F9'' ''F9'' Omitted Omitted;
         (_, row, keyboard) = Row_addKey row keyboard ''F10'' ''F10'' Omitted Omitted;
         (_, row, keyboard) = Row_addKey row keyboard ''F11'' ''F11'' Omitted Omitted;
         (_, row, keyboard) = Row_addKey row keyboard ''F12'' ''F12'' Omitted Omitted;
         row = Row_addGap row (Finite 10);
         (_, row, keyboard) = Row_addKey row keyboard ''prsc'' ''f13'' Omitted Omitted;
         (_, row, keyboard) = Row_addKey row keyboard ''sclk'' ''ScrollLock'' Omitted Omitted;
         (_, row, keyboard) = Row_addKey row keyboard ''pause'' ''Pause'' Omitted Omitted
     in keyboard)"

definition getWindowsHPDesktopKeyboard_row2 :: "Keyboard \<Rightarrow> Keyboard" where
  "getWindowsHPDesktopKeyboard_row2 keyboard =
    (let (row, keyboard) = nextRow keyboard (Val (Finite 5));
         (_, row, keyboard) = Row_addKey row keyboard backquote ''Backquote'' IsNull (Val ''~'');
         (_, row, keyboard) = Row_addKey row keyboard ''1'' ''Digit1'' IsNull (Val ''!'');
         (_, row, keyboard) = Row_addKey row keyboard ''2'' ''Digit2'' IsNull (Val ''@'');
         (_, row, keyboard) = Row_addKey row keyboard ''3'' ''Digit3'' IsNull (Val ''#'');
         (_, row, keyboard) = Row_addKey row keyboard ''4'' ''Digit4'' IsNull (Val ''$'');
         (_, row, keyboard) = Row_addKey row keyboard ''5'' ''Digit5'' IsNull (Val ''%'');
         (_, row, keyboard) = Row_addKey row keyboard ''6'' ''Digit6'' IsNull (Val ''^'');
         (_, row, keyboard) = Row_addKey row keyboard ''7'' ''Digit7'' IsNull (Val ''&'');
         (_, row, keyboard) = Row_addKey row keyboard ''8'' ''Digit8'' IsNull (Val ''*'');
         (_, row, keyboard) = Row_addKey row keyboard ''9'' ''Digit9'' IsNull (Val ''('');
         (_, row, keyboard) = Row_addKey row keyboard ''0'' ''Digit0'' IsNull (Val '')'');
         (_, row, keyboard) = Row_addKey row keyboard ''-'' ''Minus'' IsNull (Val ''_'');
         (_, row, keyboard) = Row_addKey row keyboard ''='' ''Equal'' IsNull (Val ''+'');
         (_, row, keyboard) = Row_addKey row keyboard ''Backspace'' ''Backspace'' (Val (Finite 45)) Omitted;
         row = Row_addGap row (Finite 10);
         (_, row, keyboard) = Row_addKey row keyboard ''ins'' ''Insert'' Omitted Omitted;
         (_, row, keyboard) = Row_addKey row keyboard ''home'' ''Home'' Omitted Omitted;
         (_, row, keyboard) = Row_addKey row keyboard ''pgup'' ''PageUp'' Omitted Omitted;
         row = Row_addGap row (Finite 10);
         (_, row, keyboard) = Row_addKey row keyboard ''numlock'' ''NumLock'' Omitted Omitted;
         (_, row, keyboard) = Row_addKey row keyboard ''/'' ''NumpadDivide'' Omitted Omitted;
         (_, row, keyboard) = Row_addKey row keyboard ''*'' ''NumpadMultiply'' Omitted Omitted;
         (_, row, keyboard) = Row_addKey row keyboard ''-'' ''NumpadSubtract'' Omitted Omitted
     in keyboard)"

definition getWindowsHPDesktopKeyboard_row3 :: "Keyboard \<Rightarrow> Keyboard" where
  "getWindowsHPDesktopKeyboard_row3 keyboard =
    (let (row, keyboard) = nextRow keyboard Omitted;
         (_, row, keyboard) = Row_addKey row keyboard ''Tab'' ''Tab'' (Val (Finite 30)) Omitted;
         (_, row, keyboard) = Row_addKey row keyboard ''q'' ''KeyQ'' Omitted Omitted;
         (_, row, keyboard) = Row_addKey row keyboard ''w'' ''KeyW'' Omitted Omitted;
         (_, row, keyboard) = Row_addKey row keyboard ''e'' ''KeyE'' Omitted Omitted;
         (_, row, keyboard) = Row_addKey row keyboard ''r'' ''KeyR'' Omitted Omitted;
         (_, row, keyboard) = Row_addKey row keyboard ''t'' ''KeyT'' Omitted Omitted;
         (_, row, keyboard) = Row_addKey row keyboard ''y'' ''KeyY'' Omitted Omitted;
         (_, row, keyboard) = Row_addKey row keyboard ''u'' ''KeyU'' Omitted Omitted;
         (_, row, keyboard) = Row_addKey row keyboard ''i'' ''KeyI'' Omitted Omitted;
         (_, row, keyboard) = Row_addKey row keyboard ''o'' ''KeyO'' Omitted Omitted;
         (_, row, keyboard) = Row_addKey row keyboard ''p'' ''KeyP'' Omitted Omitted;
         (_, row, keyboard) = Row_addKey row keyboard ''['' ''BracketLeft'' Omitted Omitted;
         (_, row, keyboard) = Row_addKey row keyboard '']'' ''BracketRight'' Omitted Omitted;
         (_, row, keyboard) = Row_addKey row keyboard backslash ''Backslash'' (Val (Finite 35)) Omitted;
         row = Row_addGap row (Finite 10);
         (_, row, keyboard) = Row_addKey row keyboard ''del'' ''Delete'' Omitted Omitted;
         (_, row, keyboard) = Row_addKey row keyboard ''end'' ''End'' Omitted Omitted;
         (_, row, keyboard) = Row_addKey row keyboard ''pgdn'' ''PageDown'' Omitted Omitted;
         row = Row_addGap row (Finite 10);
         (_, row, keyboard) = Row_addKey row keyboard ''7'' ''Numpad7'' Omitted Omitted;
         (_, row, keyboard) = Row_addKey row keyboard ''8'' ''Numpad8'' Omitted Omitted;
         (_, row, keyboard) = Row_addKey row keyboard ''9'' ''Numpad9'' Omitted Omitted;
         (addKey, row, keyboard) = Row_addKey row keyboard ''+'' ''NumpadAdd'' Omitted Omitted;
         keyboard = set_size_height keyboard addKey (js_mul (to_number (height (keySize keyboard))) (Finite 2))
     in keyboard)"

definition getWindowsHPDesktopKeyboard_row4 :: "Keyboard \<Rightarrow> Keyboard" where
  "getWindowsHPDesktopKeyboard_row4 keyboard =
    (let (row, keyboard) = nextRow keyboard Omitted;
         (_, row, keyboard) = Row_addKey row keyboard ''Caps'' ''CapsLock'' (Val (Finite 35)) Omitted;
         (_, row, keyboard) = Row_addKey row keyboard ''a'' ''KeyA'' Omitted Omitted;
         (_, row, keyboard) = Row_addKey row keyboard ''s'' ''KeyS'' Omitted Omitted;
         (_, row, keyboard) = Row_addKey row keyboard ''d'' ''KeyD'' Omitted Omitted;
         (_, row, keyboard) = Row_addKey row keyboard ''f'' ''KeyF'' Omitted Omitted;
         (_, row, keyboard) = Row_addKey row keyboard ''g'' ''KeyG'' Omitted Omitted;
         (_, row, keyboard) = Row_addKey row keyboard ''h'' ''KeyH'' Omitted Omitted;
         (_, row, keyboard) = Row_addKey row keyboard ''j'' ''KeyJ'' Omitted Omitted;
         (_, row, keyboard) = Row_addKey row keyboard ''k'' ''KeyK'' Omitted Omitted;
         (_, row, keyboard) = Row_addKey row keyboard ''l'' ''KeyL'' Omitted Omitted;
         (_, row, keyboard) = Row_addKey row keyboard '';'' ''Semicolon'' IsNull (Val '':'');
         (_, row, keyboard) = Row_addKey row keyboard apostrophe ''Quote'' IsNull (Val double_quote);
         (_, row, keyboard) = Row_addKey row keyboard ''Enter'' ''Enter'' (Val (Finite 50)) Omitted;
         row = Row_addGap row (Finite 10);
         row = Row_addGap row (Finite 60);
         row = Row_addGap row (Finite 10);
         (_, row, keyboard) = Row_addKey row keyboard ''4'' ''Numpad4'' Omitted Omitted;
         (_, row, keyboard) = Row_addKey row keyboard ''5'' ''Numpad5'' Omitted Omitted;
         (_, row, keyboard) = Row_addKey row keyboard ''6'' ''Numpad6'' Omitted Omitted
     in keyboard)"

definition getWindowsHPDesktopKeyboard_row5 :: "Keyboard \<Rightarrow> Keyboard" where
  "getWindowsHPDesktopKeyboard_row5 keyboard =
    (let (row, keyboard) = nextRow keyboard Omitted;
         (_, row, keyboard) = Row_addKey row keyboard ''Shift'' ''ShiftLeft'' (Val (Finite 45)) Omitted;
         (_, row, keyboard) = Row_addKey row keyboard ''z'' ''KeyZ'' Omitted Omitted;
         (_, row, keyboard) = Row_addKey row keyboard ''x'' ''KeyX'' Omitted Omitted;
         (_, row, keyboard) = Row_addKey row keyboard ''c'' ''KeyC'' Omitted Omitted;
         (_, row, keyboard) = Row_addKey row keyboard ''v'' ''KeyV'' Omitted Omitted;
         (_, row, keyboard) = Row_addKey row keyboard ''b'' ''KeyB'' Omitted Omitted;
         (_, row, keyboard) = Row_addKey row keyboard ''n'' ''KeyN'' Omitted Omitted;
         (_, row, keyboard) = Row_addKey row keyboard ''m'' ''KeyM'' Omitted Omitted;
         (_, row, keyboard) = Row_addKey row keyboard '','' ''Comma'' IsNull (Val ''<'');
         (_, row, keyboard) = Row_addKey row keyboard ''.'' ''Period'' IsNull (Val ''>'');
         (_, row, keyboard) = Row_addKey row keyboard ''/'' ''Slash'' IsNull (Val ''?'');
         (_, row, keyboard) = Row_addKey row keyboard ''Shift'' ''ShiftRight'' (Val (Finite 60)) Omitted;
         row = Row_addGap row (Finite 10);
         row = Row_addGap row (Finite 20);
         (_, row, keyboard) = Row_addKey row keyboard arrow_up ''ArrowUp'' Omitted Omitted;
         row = Row_addGap row (Finite 20);
         row = Row_addGap row (Finite 10);
         (_, row, keyboard) = Row_addKey row keyboard ''1'' ''Numpad1'' Omitted Omitted;
         (_, row, keyboard) = Row_addKey row keyboard ''2'' ''Numpad2'' Omitted Omitted;
         (_, row, keyboard) = Row_addKey row keyboard ''3'' ''Numpad3'' Omitted Omitted;
         (enterKey, row, keyboard) = Row_addKey row keyboard ''Enter'' ''NumpadEnter'' Omitted Omitted;
         keyboard = set_size_height keyboard enterKey (js_mul (to_number (height (keySize keyboard))) (Finite 2))
     in keyboard)"

definition getWindowsHPDesktopKeyboard_row6 :: "Keyboard \<Rightarrow> Keyboard" where
  "getWindowsHPDesktopKeyboard_row6 keyboard =
    (let (row, keyboard) = nextRow keyboard Omitted;
         (_, row, keyboard) = Row_addKey row keyboard ''Ctrl'' ''ControlLeft'' (Val (Finite 30)) Omitted;
         (_, row, keyboard) = Row_addKey row keyboard ''Win'' ''MetaLeft'' (Val (Finite 25)) Omitted;
         (_, row, keyboard) = Row_addKey row keyboard ''Alt'' ''AltLeft'' (Val (Finite 25)) Omitted;
         (_, row, keyboard) = Row_addKey row keyboard ''space'' ''Space'' (Val (Finite 115)) Omitted;
         (_, row, keyboard) = Row_addKey row keyboard ''Alt'' ''AltRight'' (Val (Finite 25)) Omitted;
         (_, row, keyboard) = Row_addKey row keyboard ''Win'' ''MetaRight'' (Val (Finite 25)) Omitted;
         (_, row, keyboard) = Row_addKey row keyboard ''Menu'' ''ContextMenu'' (Val (Finite 25)) Omitted;
         (_, row, keyboard) = Row_addKey row keyboard ''Ctrl'' ''ControlRight'' (Val (Finite 35)) Omitted;
         row = Row_addGap row (Finite 10);
         (_, row, keyboard) = Row_addKey row keyboard arrow_left ''ArrowLeft'' Omitted Omitted;
         (_, row, keyboard) = Row_addKey row keyboard arrow_down ''ArrowDown'' Omitted Omitted;
         (_, row, keyboard) = Row_addKey row keyboard arrow_right ''ArrowRight'' Omitted Omitted;
         row = Row_addGap row (Finite 10);
         (_, row, keyboard) = Row_addKey row keyboard ''0'' ''Numpad0'' (Val (Finite 40)) Omitted;
         (_, row, keyboard) = Row_addKey row keyboard ''.'' ''NumpadDecimal'' Omitted Omitted
     in keyboard)"

definition getWindowsHPDesktopKeyboard :: Keyboard where
  "getWindowsHPDesktopKeyboard =
    (let keyboard = Keyboard_new;
         keyboard = getWindowsHPDesktopKeyboard_row1 keyboard;
         keyboard = getWindowsHPDesktopKeyboard_row2 keyboard;
         keyboard = getWindowsHPDesktopKeyboard_row3 keyboard;
         keyboard = getWindowsHPDesktopKeyboard_row4 keyboard;
         keyboard = getWindowsHPDesktopKeyboard_row5 keyboard;
         keyboard = getWindowsHPDesktopKeyboard_row6 keyboard
     in keyboard)"

subsection \<open>\<open>getWindowsGenericKeyboard\<close>\<close>

definition getWindowsGenericKeyboard_row1 :: "Keyboard \<Rightarrow> Keyboard" where
  "getWindowsGenericKeyboard_row1 keyboard =
    (let (row, keyboard) = nextRow keyboard Omitted;
         (_, row, keyboard) = Row_addKey row keyboard ''Esc'' ''Escape'' Omitted Omitted;
         row = Row_addGap row (Finite 19);
         (_, row, keyboard) = Row_addKey row keyboard ''F1'' ''F1'' Omitted Omitted;
         (_, row, keyboard) = Row_addKey row keyboard ''F2'' ''F2'' Omitted Omitted;
         (_, row, keyboard) = Row_addKey row keyboard ''F3'' ''F3'' Omitted Omitted;
         (_, row, keyboard) = Row_addKey row keyboard ''F4'' ''F4'' Omitted Omitted;
         row = Row_addGap row (Finite 13);
         (_, row, keyboard) = Row_addKey row keyboard ''F5'' ''F5'' Omitted Omitted;
         (_, row, keyboard) = Row_addKey row keyboard ''F6'' ''F6'' Omitted Omitted;
         (_, row, keyboard) = Row_addKey row keyboard ''F7'' ''F7'' Omitted Omitted;
         (_, row, keyboard) = Row_addKey row keyboard ''F8'' ''F8'' Omitted Omitted;
         row = Row_addGap row (Finite 13);
         (_, row, keyboard) = Row_addKey row keyboard ''F9'' ''F9'' Omitted Omitted;
         (_, row, keyboard) = Row_addKey row keyboard ''F10'' ''F10'' Omitted Omitted;
         (_, row, keyboard) = Row_addKey row keyboard ''F11'' ''F11'' Omitted Omitted;
         (_, row, keyboard) = Row_addKey row keyboard ''F12'' ''F12'' Omitted Omitted;
         row = Row_addGap row (Finite 10);
         (_, row, keyboard) = Row_addKey row keyboard ''Power'' ''Power'' Omitted Omitted;
         (_, row, keyboard) = Row_addKey row keyboard ''Sleep'' ''Sleep'' Omitted Omitted;
         (_, row, keyboard) = Row_addKey row keyboard ''Wake'' ''Wake'' Omitted Omitted
     in keyboard)"

definition getWindowsGenericKeyboard_row2 :: "Keyboard \<Rightarrow> Keyboard" where
  "getWindowsGenericKeyboard_row2 keyboard =
    (let (row, keyboard) = nextRow keyboard (Val (Finite 5));
         (_, row, keyboard) = Row_addKey row keyboard backquote ''Backquote'' IsNull (Val ''~'');
         (_, row, keyboard) = Row_addKey row keyboard ''1'' ''Digit1'' IsNull (Val ''!'');
         (_, row, keyboard) = Row_addKey row keyboard ''2'' ''Digit2'' IsNull (Val ''@'');
         (_, row, keyboard) = Row_addKey row keyboard ''3'' ''Digit3'' IsNull (Val ''#'');
         (_, row, keyboard) = Row_addKey row keyboard ''4'' ''Digit4'' IsNull (Val ''$'');
         (_, row, keyboard) = Row_addKey row keyboard ''5'' ''Digit5'' IsNull (Val ''%'');
         (_, row, keyboard) = Row_addKey row keyboard ''6'' ''Digit6'' IsNull (Val ''^'');
         (_, row, keyboard) = Row_addKey row keyboard ''7'' ''Digit7'' IsNull (Val ''&'');
         (_, row, keyboard) = Row_addKey row keyboard ''8'' ''Digit8'' IsNull (Val ''*'');
         (_, row, keyboard) = Row_addKey row keyboard ''9'' ''Digit9'' IsNull (Val ''('');
         (_, row, keyboard) = Row_addKey row keyboard ''0'' ''Digit0'' IsNull (Val '')'');
         (_, row, keyboard) = Row_addKey row keyboard ''-'' ''Minus'' IsNull (Val ''_'');
         (_, row, keyboard) = Row_addKey row keyboard ''='' ''Equal'' IsNull (Val ''+'');
         (_, row, keyboard) = Row_addKey row keyboard ''Backspace'' ''Backspace'' (Val (Finite 45)) Omitted;
         row = Row_addGap row (Finite 10);
         (_, row, keyboard) = Row_addKey row keyboard ''prsc'' ''f13'' Omitted Omitted;
         (_, row, keyboard) = Row_addKey row keyboard ''sclk'' ''ScrollLock'' Omitted Omitted;
         (_, row, keyboard) = Row_addKey row keyboard ''pause'' ''Pause'' Omitted Omitted;
         row = Row_addGap row (Finite 10);
         (_, row, keyboard) = Row_addKey row keyboard ''numlock'' ''NumLock'' Omitted Omitted;
         (_, row, keyboard) = Row_addKey row keyboard ''/'' ''NumpadDivide'' Omitted Omitted;
         (_, row, keyboard) = Row_addKey row keyboard ''*'' ''NumpadMultiply'' Omitted Omitted;
         (_, row, keyboard) = Row_addKey row keyboard ''-'' ''NumpadSubtract'' Omitted Omitted
     in keyboard)"

definition getWindowsGenericKeyboard_row3 :: "Keyboard \<Rightarrow> Keyboard" where
  "getWindowsGenericKeyboard_row3 keyboard =
    (let (row, keyboard) = nextRow keyboard Omitted;
         (_, row, keyboard) = Row_addKey row keyboard ''Tab'' ''Tab'' (Val (Finite 30)) Omitted;
         (_, row, keyboard) = Row_addKey row keyboard ''q'' ''KeyQ'' Omitted Omitted;
         (_, row, keyboard) = Row_addKey row keyboard ''w'' ''KeyW'' Omitted Omitted;
         (_, row, keyboard) = Row_addKey row keyboard ''e'' ''KeyE'' Omitted Omitted;
         (_, row, keyboard) = Row_addKey row keyboard ''r'' ''KeyR'' Omitted Omitted;
         (_, row, keyboard) = Row_addKey row keyboard ''t'' ''KeyT'' Omitted Omitted;
         (_, row, keyboard) = Row_addKey row keyboard ''y'' ''KeyY'' Omitted Omitted;
         (_, row, keyboard) = Row_addKey row keyboard ''u'' ''KeyU'' Omitted Omitted;
         (_, row, keyboard) = Row_addKey row keyboard ''i'' ''KeyI'' Omitted Omitted;
         (_, row, keyboard) = Row_addKey row keyboard ''o'' ''KeyO'' Omitted Omitted;
         (_, row, keyboard) = Row_addKey row keyboard ''p'' ''KeyP'' Omitted Omitted;
         (_, row, keyboard) = Row_addKey row keyboard ''['' ''BracketLeft'' Omitted Omitted;
         (_, row, keyboard) = Row_addKey row keyboard '']'' ''BracketRight'' Omitted Omitted;
         (enterKey, row, keyboard) = Row_addKey row keyboard ''enter'' ''Enter'' (Val (Finite 35)) Omitted;
         keyboard = set_size_height keyboard enterKey (js_mul (to_number (height (keySize keyboard))) (Finite 2));
         keyboard = set_zIndex keyboard enterKey ''0'';
         row = Row_addGap row (Finite 10);
         (_, row, keyboard) = Row_addKey row keyboard ''ins'' ''Insert'' Omitted Omitted;
         (_, row, keyboard) = Row_addKey row keyboard ''home'' ''Home'' Omitted Omitted;
         (_, row, keyboard) = Row_addKey row keyboard ''pgup'' ''PageUp'' Omitted Omitted;
         row = Row_addGap row (Finite 10);
         (_, row, keyboard) = Row_addKey row keyboard ''7'' ''Numpad7'' Omitted Omitted;
         (_, row, keyboard) = Row_addKey row keyboard ''8'' ''Numpad8'' Omitted Omitted;
         (_, row, keyboard) = Row_addKey row keyboard ''9'' ''Numpad9'' Omitted Omitted;
         (addKey, row, keyboard) = Row_addKey row keyboard ''+'' ''NumpadAdd'' Omitted Omitted;
         keyboard = set_size_height keyboard addKey (js_mul (to_number (height (keySize keyboard))) (Finite 2))
     in keyboard)"

definition getWindowsGenericKeyboard_row4 :: "Keyboard \<Rightarrow> Keyboard" where
  "getWindowsGenericKeyboard_row4 keyboard =
    (let (row, keyboard) = nextRow keyboard Omitted;
         (_, row, keyboard) = Row_addKey row keyboard ''Caps'' ''CapsLock'' (Val (Finite 35)) Omitted;
         (_, row, keyboard) = Row_addKey row keyboard ''a'' ''KeyA'' Omitted Omitted;
         (_, row, keyboard) = Row_addKey row keyboard ''s'' ''KeyS'' Omitted Omitted;
         (_, row, keyboard) = Row_addKey row keyboard ''d'' ''KeyD'' Omitted Omitted;
         (_, row, keyboard) = Row_addKey row keyboard ''f'' ''KeyF'' Omitted Omitted;
         (_, row, keyboard) = Row_addKey row keyboard ''g'' ''KeyG'' Omitted Omitted;
         (_, row, keyboard) = Row_addKey row keyboard ''h'' ''KeyH'' Omitted Omitted;
         (_, row, keyboard) = Row_addKey row keyboard ''j'' ''KeyJ'' Omitted Omitted;
         (_, row, keyboard) = Row_addKey row keyboard ''k'' ''KeyK'' Omitted Omitted;
         (_, row, keyboard) = Row_addKey row keyboard ''l'' ''KeyL'' Omitted Omitted;
         (_, row, keyboard) = Row_addKey row keyboard '';'' ''Semicolon'' IsNull (Val '':'');
         (_, row, keyboard) = Row_addKey row keyboard apostrophe ''Quote'' IsNull (Val double_quote);
         (_, row, keyboard) = Row_addKey row keyboard backslash ''Backslash'' Omitted Omitted;
         row = Row_addGap row (Finite 30);
         row = Row_addGap row (Finite 10);
         (_, row, keyboard) = Row_addKey row keyboard ''del'' ''Delete'' Omitted Omitted;
         (_, row, keyboard) = Row_addKey row keyboard ''end'' ''End'' Omitted Omitted;
         (_, row, keyboard) = Row_addKey row keyboard ''pgdn'' ''PageDown'' Omitted Omitted;
         row = Row_addGap row (Finite 10);
         (_, row, keyboard) = Row_addKey row keyboard ''4'' ''Numpad4'' Omitted Omitted;
         (_, row, keyboard) = Row_addKey row keyboard ''5'' ''Numpad5'' Omitted Omitted;
         (_, row, keyboard) = Row_addKey row keyboard ''6'' ''Numpad6'' Omitted Omitted
     in keyboard)"

definition getWindowsGenericKeyboard_row5 :: "Keyboard \<Rightarrow> Keyboard" where
  "getWindowsGenericKeyboard_row5 keyboard =
    (let (row, keyboard) = nextRow keyboard Omitted;
         (_, row, keyboard) = Row_addKey row keyboard ''Shift'' ''ShiftLeft'' (Val (Finite 45)) Omitted;
         (_, row, keyboard) = Row_addKey row keyboard ''z'' ''KeyZ'' Omitted Omitted;
         (_, row, keyboard) = Row_addKey row keyboard ''x'' ''KeyX'' Omitted Omitted;
         (_, row, keyboard) = Row_addKey row keyboard ''c'' ''KeyC'' Omitted Omitted;
         (_, row, keyboard) = Row_addKey row keyboard ''v'' ''KeyV'' Omitted Omitted;
         (_, row, keyboard) = Row_addKey row keyboard ''b'' ''KeyB'' Omitted Omitted;
         (_, row, keyboard) = Row_addKey row keyboard ''n'' ''KeyN'' Omitted Omitted;
         (_, row, keyboard) = Row_addKey row keyboard ''m'' ''KeyM'' Omitted Omitted;
         (_, row, keyboard) = Row_addKey row keyboard '','' ''Comma'' IsNull (Val ''<'');
         (_, row, keyboard) = Row_addKey row keyboard ''.'' ''Period'' IsNull (Val ''>'');
         (_, row, keyboard) = Row_addKey row keyboard ''/'' ''Slash'' IsNull (Val ''?'');
         (_, row, keyboard) = Row_addKey row keyboard ''Shift'' ''ShiftRight'' (Val (Finite 60)) Omitted;
         row = Row_addGap row (Finite 10);
         row = Row_addGap row (Finite 20);
         (_, row, keyboard) = Row_addKey row keyboard arrow_up ''ArrowUp'' Omitted Omitted;
         row = Row_addGap row (Finite 20);
         row = Row_addGap row (Finite 10);
         (_, row, keyboard) = Row_addKey row keyboard ''1'' ''Numpad1'' Omitted Omitted;
         (_, row, keyboard) = Row_addKey row keyboard ''2'' ''Numpad2'' Omitted Omitted;
         (_, row, keyboard) = Row_addKey row keyboard ''3'' ''Numpad3'' Omitted Omitted;
         (enterKey, row, keyboard) = Row_addKey row keyboard ''Enter'' ''NumpadEnter'' Omitted Omitted;
         keyboard = set_size_height keyboard enterKey (js_mul (to_number (height (keySize keyboard))) (Finite 2))
     in keyboard)"

definition getWindowsGenericKeyboard_row6 :: "Keyboard \<Rightarrow> Keyboard" where
  "getWindowsGenericKeyboard_row6 keyboard =
    (let (row, keyboard) = nextRow keyboard Omitted;
         (_, row, keyboard) = Row_addKey row keyboard ''Ctrl'' ''ControlLeft'' (Val (Finite 30)) Omitted;
         (_, row, keyboard) = Row_addKey row keyboard ''Win'' ''MetaLeft'' (Val (Finite 25)) Omitted;
         (_, row, keyboard) = Row_addKey row keyboard ''Alt'' ''AltLeft'' (Val (Finite 25)) Omitted;
         (_, row, keyboard) = Row_addKey row keyboard ''space'' ''Space'' (Val (Finite 115)) Omitted;
         (_, row, keyboard) = Row_addKey row keyboard ''Alt'' ''AltRight'' (Val (Finite 25)) Omitted;
         (_, row, keyboard) = Row_addKey row keyboard ''Win'' ''MetaRight'' (Val (Finite 25)) Omitted;
         (_, row, keyboard) = Row_addKey row keyboard ''Menu'' ''ContextMenu'' (Val (Finite 25)) Omitted;
         (_, row, keyboard) = Row_addKey row keyboard ''Ctrl'' ''ControlRight'' (Val (Finite 35)) Omitted;
         row = Row_addGap row (Finite 10);
         (_, row, keyboard) = Row_addKey row keyboard arrow_left ''ArrowLeft'' Omitted Omitted;
         (_, row, keyboard) = Row_addKey row keyboard arrow_down ''ArrowDown'' Omitted Omitted;
         (_, row, keyboard) = Row_addKey row keyboard arrow_right ''ArrowRight'' Omitted Omitted;
         row = Row_addGap row (Finite 10);
         (_, row, keyboard) = Row_addKey row keyboard ''0'' ''Numpad0'' (Val (Finite 40)) Omitted;
         (_, row, keyboard) = Row_addKey row keyboard ''.'' ''NumpadDecimal'' Omitted Omitted
     in keyboard)"

definition getWindowsGenericKeyboard :: Keyboard where
  "getWindowsGenericKeyboard =
    (let keyboard = Keyboard_new;
         keyboard = getWindowsGenericKeyboard_row1 keyboard;
         keyboard = getWindowsGenericKeyboard_row2 keyboard;
         keyboard = getWindowsGenericKeyboard_row3 keyboard;
         keyboard = getWindowsGenericKeyboard_row4 keyboard;
         keyboard = getWindowsGenericKeyboard_row5 keyboard;
         keyboard = getWindowsGenericKeyboard_row6 keyboard
     in keyboard)"

subsection \<open>\<open>getMacBookProKeyboard\<close>\<close>

definition getMacBookProKeyboard_row1 :: "Keyboard \<Rightarrow> Keyboard" where
  "getMacBookProKeyboard_row1 keyboard =
    (let (row, keyboard) = nextRow keyboard Omitted;
         (_, row, keyboard) = Row_addKey row keyboard ''Esc'' ''Escape'' (Val (Finite 30)) Omitted;
         (_, row, keyboard) = Row_addKey row keyboard ''F1'' ''F1'' Omitted Omitted;
         (_, row, keyboard) = Row_addKey row keyboard ''F2'' ''F2'' Omitted Omitted;
         (_, row, keyboard) = Row_addKey row keyboard ''F3'' ''F3'' Omitted Omitted;
         (_, row, keyboard) = Row_addKey row keyboard ''F4'' ''F4'' Omitted Omitted;
         (_, row, keyboard) = Row_addKey row keyboard ''F5'' ''F5'' Omitted Omitted;
         (_, row, keyboard) = Row_addKey row keyboard ''F6'' ''F6'' Omitted Omitted;
         (_, row, keyboard) = Row_addKey row keyboard ''F7'' ''F7'' Omitted Omitted;
         (_, row, keyboard) = Row_addKey row keyboard ''F8'' ''F8'' Omitted Omitted;
         (_, row, keyboard) = Row_addKey row keyboard ''F9'' ''F9'' Omitted Omitted;
         (_, row, keyboard) = Row_addKey row keyboard ''F10'' ''F10'' Omitted Omitted;
         (_, row, keyboard) = Row_addKey row keyboard ''F11'' ''F11'' Omitted Omitted;
         (_, row, keyboard) = Row_addKey row keyboard ''F12'' ''F12'' Omitted Omitted;
         (_, row, keyboard) = Row_addKey row keyboard ''F13'' ''f13'' (Val (Finite 25)) Omitted
     in keyboard)"

definition getMacBookProKeyboard_row2 :: "Keyboard \<Rightarrow> Keyboard" where
  "getMacBookProKeyboard_row2 keyboard =
    (let (row, keyboard) = nextRow keyboard (Val (Finite 5));
         (_, row, keyboard) = Row_addKey row keyboard backquote ''Backquote'' IsNull (Val ''~'');
         (_, row, keyboard) = Row_addKey row keyboard ''1'' ''Digit1'' IsNull (Val ''!'');
         (_, row, keyboard) = Row_addKey row keyboard ''2'' ''Digit2'' IsNull (Val ''@'');
         (_, row, keyboard) = Row_addKey row keyboard ''3'' ''Digit3'' IsNull (Val ''#'');
         (_, row, keyboard) = Row_addKey row keyboard ''4'' ''Digit4'' IsNull (Val ''$'');
         (_, row, keyboard) = Row_addKey row keyboard ''5'' ''Digit5'' IsNull (Val ''%'');
         (_, row, keyboard) = Row_addKey row keyboard ''6'' ''Digit6'' IsNull (Val ''^'');
         (_, row, keyboard) = Row_addKey row keyboard ''7'' ''Digit7'' IsNull (Val ''&'');
         (_, row, keyboard) = Row_addKey row keyboard ''8'' ''Digit8'' IsNull (Val ''*'');
         (_, row, keyboard) = Row_addKey row keyboard ''9'' ''Digit9'' IsNull (Val ''('');
         (_, row, keyboard) = Row_addKey row keyboard ''0'' ''Digit0'' IsNull (Val '')'');
         (_, row, keyboard) = Row_addKey row keyboard ''-'' ''Minus'' IsNull (Val ''_'');
         (_, row, keyboard) = Row_addKey row keyboard ''='' ''Equal'' IsNull (Val ''+'');
         (_, row, keyboard) = Row_addKey row keyboard ''delete'' ''Backspace'' (Val (Finite 35)) Omitted
     in keyboard)"

definition getMacBookProKeyboard_row3 :: "Keyboard \<Rightarrow> Keyboard" where
  "getMacBookProKeyboard_row3 keyboard =
    (let (row, keyboard) = nextRow keyboard Omitted;
         (_, row, keyboard) = Row_addKey row keyboard ''tab'' ''Tab'' (Val (Finite 30)) Omitted;
         (_, row, keyboard) = Row_addKey row keyboard ''q'' ''KeyQ'' Omitted Omitted;
         (_, row, keyboard) = Row_addKey row keyboard ''w'' ''KeyW'' Omitted Omitted;
         (_, row, keyboard) = Row_addKey row keyboard ''e'' ''KeyE'' Omitted Omitted;
         (_, row, keyboard) = Row_addKey row keyboard ''r'' ''KeyR'' Omitted Omitted;
         (_, row, keyboard) = Row_addKey row keyboard ''t'' ''KeyT'' Omitted Omitted;
         (_, row, keyboard) = Row_addKey row keyboard ''y'' ''KeyY'' Omitted Omitted;
         (_, row, keyboard) = Row_addKey row keyboard ''u'' ''KeyU'' Omitted Omitted;
         (_, row, keyboard) = Row_addKey row keyboard ''i'' ''KeyI'' Omitted Omitted;
         (_, row, keyboard) = Row_addKey row keyboard ''o'' ''KeyO'' Omitted Omitted;
         (_, row, keyboard) = Row_addKey row keyboard ''p'' ''KeyP'' Omitted Omitted;
         (_, row, keyboard) = Row_addKey row keyboard ''['' ''BracketLeft'' Omitted Omitted;
         (_, row, keyboard) = Row_addKey row keyboard '']'' ''BracketRight'' Omitted Omitted;
         (_, row, keyboard) = Row_addKey row keyboard backslash ''Backslash'' (Val (Finite 25)) (Val ''|'')
     in keyboard)"

definition getMacBookProKeyboard_row4 :: "Keyboard \<Rightarrow> Keyboard" where
  "getMacBookProKeyboard_row4 keyboard =
    (let (row, keyboard) = nextRow keyboard Omitted;
         (_, row, keyboard) = Row_addKey row keyboard ''caps'' ''CapsLock'' (Val (Finite 35)) Omitted;
         (_, row, keyboard) = Row_addKey row keyboard ''a'' ''KeyA'' Omitted Omitted;
         (_, row, keyboard) = Row_addKey row keyboard ''s'' ''KeyS'' Omitted Omitted;
         (_, row, keyboard) = Row_addKey row keyboard ''d'' ''KeyD'' Omitted Omitted;
         (_, row, keyboard) = Row_addKey row keyboard ''f'' ''KeyF'' Omitted Omitted;
         (_, row, keyboard) = Row_addKey row keyboard ''g'' ''KeyG'' Omitted Omitted;
         (_, row, keyboard) = Row_addKey row keyboard ''h'' ''KeyH'' Omitted Omitted;
         (_, row, keyboard) = Row_addKey row keyboard ''j'' ''KeyJ'' Omitted Omitted;
         (_, row, keyboard) = Row_addKey row keyboard ''k'' ''KeyK'' Omitted Omitted;
         (_, row, keyboard) = Row_addKey row keyboard ''l'' ''KeyL'' Omitted Omitted;
         (_, row, keyboard) = Row_addKey row keyboard '';'' ''Semicolon'' IsNull (Val '':'');
         (_, row, keyboard) = Row_addKey row keyboard apostrophe ''Quote'' IsNull (Val double_quote);
         (_, row, keyboard) = Row_addKey row keyboard ''Return'' ''Enter'' (Val (Finite 40)) Omitted
     in keyboard)"

definition getMacBookProKeyboard_row5 :: "Keyboard \<Rightarrow> Keyboard" where
  "getMacBookProKeyboard_row5 keyboard =
    (let (row, keyboard) = nextRow keyboard Omitted;
         (_, row, keyboard) = Row_addKey row keyboard ''Shift'' ''ShiftLeft'' (Val (Finite 45)) Omitted;
         (_, row, keyboard) = Row_addKey row keyboard ''z'' ''KeyZ'' Omitted Omitted;
         (_, row, keyboard) = Row_addKey row keyboard ''x'' ''KeyX'' Omitted Omitted;
         (_, row, keyboard) = Row_addKey row keyboard ''c'' ''KeyC'' Omitted Omitted;
         (_, row, keyboard) = Row_addKey row keyboard ''v'' ''KeyV'' Omitted Omitted;
         (_, row, keyboard) = Row_addKey row keyboard ''b'' ''KeyB'' Omitted Omitted;
         (_, row, keyboard) = Row_addKey row keyboard ''n'' ''KeyN'' Omitted Omitted;
         (_, row, keyboard) = Row_addKey row keyboard ''m'' ''KeyM'' Omitted Omitted;
         (_, row, keyboard) = Row_addKey row keyboard '','' ''Comma'' IsNull (Val ''<'');
         (_, row, keyboard) = Row_addKey row keyboard ''.'' ''Period'' IsNull (Val ''>'');
         (_, row, keyboard) = Row_addKey row keyboard ''/'' ''Slash'' IsNull (Val ''?'');
         (_, row, keyboard) = Row_addKey row keyboard ''Shift'' ''ShiftRight'' (Val (Finite 50)) Omitted
     in keyboard)"

definition getMacBookProKeyboard_row6 :: "Keyboard \<Rightarrow> Keyboard" where
  "getMacBookProKeyboard_row6 keyboard =
    (let (row, keyboard) = nextRow keyboard Omitted;
         (_, row, keyboard) = Row_addKey row keyboard ''Fn'' ''Function'' (Val (Finite 20)) Omitted;
         (_, row, keyboard) = Row_addKey row keyboard mac_control ''ControlLeft'' (Val (Finite 20)) Omitted;
         (_, row, keyboard) = Row_addKey row keyboard mac_option ''AltLeft'' (Val (Finite 20)) Omitted;
         (_, row, keyboard) = Row_addKey row keyboard mac_command ''MetaLeft'' (Val (Finite 25)) Omitted;
         (_, row, keyboard) = Row_addKey row keyboard ''space'' ''Space'' (Val (Finite 105)) Omitted;
         (_, row, keyboard) = Row_addKey row keyboard mac_command ''MetaRight'' (Val (Finite 25)) Omitted;
         (_, row, keyboard) = Row_addKey row keyboard mac_option ''AltRight'' (Val (Finite 20)) Omitted;
         (left, row, keyboard) = Row_addKey row keyboard arrow_left ''ArrowLeft'' Omitted Omitted;
         keyboard = set_size_height keyboard left (Finite 10);
         (down, row, keyboard) = Row_addKey row keyboard arrow_down ''ArrowDown'' Omitted Omitted;
         keyboard = set_size_height keyboard down (Finite 10);
         (right, row, keyboard) = Row_addKey row keyboard arrow_right ''ArrowRight'' Omitted Omitted;
         keyboard = set_size_height keyboard right (Finite 10);
         (up, row, keyboard) = Row_addKey row keyboard arrow_up ''ArrowUp'' Omitted Omitted;
         keyboard = set_size_height keyboard up (Finite 10);
         keyboard = set_position_x keyboard up (pos_x (position (keys keyboard ! down)));
         keyboard = add_position_y keyboard left (Finite 10);
         keyboard = add_position_y keyboard down (Finite 10);
         keyboard = add_position_y keyboard right (Finite 10)
     in keyboard)"

definition getMacBookProKeyboard :: Keyboard where
  "getMacBookProKeyboard =
    (let keyboard = Keyboard_new;
         keyboard = getMacBookProKeyboard_row1 keyboard;
         keyboard = getMacBookProKeyboard_row2 keyboard;
         keyboard = getMacBookProKeyboard_row3 keyboard;
         keyboard = getMacBookProKeyboard_row4 keyboard;
         keyboard = getMacBookProKeyboard_row5 keyboard;
         keyboard = getMacBookProKeyboard_row6 keyboard
     in keyboard)"

subsection \<open>\<open>getWindowsLogitech2Keyboard\<close> and the catalog\<close>

text \<open>
  The derived layout. A property write on \<open>undefined\<close> or \<open>null\<close> is a TypeError; on a
  member of \<open>Object.prototype\<close> it changes that object and no key.
\<close>

definition getWindowsLogitech2Keyboard :: "error + Keyboard" where
  "getWindowsLogitech2Keyboard =
    (let keyboard = getWindowsLogitechKeyboard;
         (fnKey, console) = getKey keyboard ''ContextMenu''
     in case fnKey of
          KeyRef r \<Rightarrow>
            (let keyboard = update_key keyboard r (\<lambda>k. k\<lparr>displayChar := ''Fn''\<rparr>);
                 keyboard = update_key keyboard r (\<lambda>k. k\<lparr>keyCode := ''Fn''\<rparr>);
                 keyboard = remap keyboard
             in Inr keyboard)
        | BuiltIn n \<Rightarrow> Inr (remap keyboard)
        | _ \<Rightarrow> Inl TypeError)"

text \<open>
  \<open>KeyboardModel\<close>: the field \<open>keyboard\<close> holds the factory, a function of no argument;
  its value here is what a call of it gives, a keyboard or the exception thrown.
\<close>

record KeyboardModel =
  model_id :: string
  model_name :: string
  model_keyboard :: "error + Keyboard"

definition KeyboardModel_new :: "string \<Rightarrow> string \<Rightarrow> error + Keyboard \<Rightarrow> KeyboardModel" where
  "KeyboardModel_new i n fn = \<lparr>model_id = i, model_name = n, model_keyboard = fn\<rparr>"

definition getOptions :: "KeyboardModel list" where
  "getOptions =
     [KeyboardModel_new ''cheap'' ''Generic Windows Keyboard'' (Inr getWindowsGenericKeyboard),
      KeyboardModel_new ''hp-lowend'' ''HP Low End Desktop Keyboard''
        (Inr getWindowsHPDesktopKeyboard),
      KeyboardModel_new ''logitech'' ''Logitech Windows Desktop Keyboard''
        (Inr getWindowsLogitechKeyboard),
      KeyboardModel_new ''logitech2'' ''Logitech Windows Desktop Keyboard 2''
        getWindowsLogitech2Keyboard,
      KeyboardModel_new ''macbookpro'' ''Macbook Pro'' (Inr getMacBookProKeyboard)]"

section \<open>What the specification says of event sequences\<close>

text \<open>
  The specification's reading of an event sequence, to compare the tracker with: an event
  concerns a key when it is a clear or carries the key's identifier, and the state of a key
  is the one its latest such event leaves (down: \<open>Down\<close>, up: \<open>Pressed\<close>, clear:
  \<open>NeverPressed\<close>), or its first state when no event concerns it.
\<close>

fun event_code :: "Event \<Rightarrow> string option" where
  "event_code (KeyDownEvent kc) = Some kc"
| "event_code (KeyUpEvent kc) = Some kc"
| "event_code ClearEvent = None"

fun effect :: "Event \<Rightarrow> KeyState" where
  "effect (KeyDownEvent kc) = Down"
| "effect (KeyUpEvent kc) = Pressed"
| "effect ClearEvent = NeverPressed"

definition relevant :: "string \<Rightarrow> Event \<Rightarrow> bool" where
  "relevant kc e = (case event_code e of None \<Rightarrow> True | Some k \<Rightarrow> k = kc)"

definition spec_latest_wins :: "string \<Rightarrow> KeyState \<Rightarrow> Event list \<Rightarrow> KeyState" where
  "spec_latest_wins kc s evs =
     (let es = filter (relevant kc) evs in if es = [] then s else effect (last es))"

section \<open>The index and the key codes\<close>

text \<open>
  The index that \<open>remap\<close> builds depends on the key codes alone; \<open>index_codes\<close> is
  \<open>remap_loop\<close> on the list of codes. A keyboard is indexed when its index is the one
  \<open>remap\<close> would build. \<open>extends_by kb cs kb'\<close>: \<open>kb'\<close> has the keys of \<open>kb\<close> with their
  codes and states, followed by never-pressed keys with the codes \<open>cs\<close>, all entered in
  the index, and the row cursor of \<open>kb'\<close> stands at the left margin.
\<close>

fun index_codes :: "string list \<Rightarrow> nat \<Rightarrow> (string \<rightharpoonup> nat) \<Rightarrow> (string \<rightharpoonup> nat)" where
  "index_codes [] i m = m"
| "index_codes (c # cs) i m = index_codes cs (Suc i) (m(c \<mapsto> i))"

definition indexed :: "Keyboard \<Rightarrow> bool" where
  "indexed kb = (remap kb = kb)"

definition extends_by :: "Keyboard \<Rightarrow> string list \<Rightarrow> Keyboard \<Rightarrow> bool" where
  "extends_by kb cs kb' =
     (map keyCode (keys kb') = map keyCode (keys kb) @ cs \<and>
      map state (keys kb') = map state (keys kb) @ replicate (length cs) NeverPressed \<and>
      key_map kb' = index_codes cs (length (keys kb)) (key_map kb) \<and>
      pos_x (nextRowPosition kb') = pos_x (startPosition kb'))"

section \<open>Whole numbers up to \<open>2^53\<close> are added exactly\<close>

lemma round_half_even_one: "round_half_even n 1 = n"
  by (simp add: round_half_even_def)

lemma ilog2_of_int:
  assumes "0 < n"
  shows "ilog2 (of_int n) = bitlen n - 1" and "0 \<le> bitlen n - 1"
    and "2 ^ nat (bitlen n - 1) \<le> n"
proof -
  from bitlen_bounds [OF assms] have b: "2 ^ nat (bitlen n - 1) \<le> n" by simp
  from assms have p: "0 \<le> bitlen n - 1"
    by (simp add: bitlen_alt_def)
  show "0 \<le> bitlen n - 1" by (rule p)
  show "2 ^ nat (bitlen n - 1) \<le> n" by (rule b)
  have one: "bitlen 1 = 1" by (simp add: compute_bitlen)
  from b p show "ilog2 (of_int n) = bitlen n - 1"
    by (simp add: ilog2_def one)
qed

lemma round_double_of_int:
  assumes "\<bar>n\<bar> \<le> 2 ^ 53"
  shows "round_double (of_int n) = Finite (of_int n)"
proof (cases "n = 0")
  case True
  then show ?thesis by (simp add: round_double_def)
next
  case False
  then have pos: "0 < \<bar>n\<bar>" by simp
  define k where "k = bitlen \<bar>n\<bar> - 1"
  note il = ilog2_of_int [OF pos, folded k_def]
  have abs: "\<bar>rat_of_int n\<bar> = of_int \<bar>n\<bar>" by simp
  from il(3) assms have le: "(2::int) ^ nat k \<le> 2 ^ 53" by (rule order_trans)
  have k53: "nat k \<le> 53" by (rule power_le_imp_le_exp [OF _ le]) simp
  with il(2) have kle: "k \<le> 53" by linarith
  have e: "max (k - 52) (- 1074) = k - 52" using il(2) by simp
  have small: "\<bar>rat_of_int n\<bar> < 2 ^ 1024"
  proof -
    from assms have "rat_of_int \<bar>n\<bar> \<le> of_int (2 ^ 53)" by (simp only: of_int_le_iff)
    then have "\<bar>rat_of_int n\<bar> \<le> 2 ^ 53" by simp
    also have "(2::rat) ^ 53 < 2 ^ 1024" by simp
    finally show ?thesis .
  qed
  have val: "(let m = (if 0 \<le> k - 52 then round_half_even n (1 * 2 ^ nat (k - 52))
                 else round_half_even (n * 2 ^ nat (- (k - 52))) 1)
             in rat_of_int m * pow2 (k - 52)) = of_int n"
  proof (cases "k \<le> 52")
    case True
    show ?thesis
    proof (cases "k = 52")
      case True
      then show ?thesis by (simp add: round_half_even_one pow2_def)
    next
      case False
      with \<open>k \<le> 52\<close> have "k - 52 < 0" by simp
      then show ?thesis by (simp add: round_half_even_one pow2_def)
    qed
  next
    case False
    with kle have k: "k = 53" by simp
    with il(3) have "2 ^ 53 \<le> \<bar>n\<bar>" by simp
    with assms have "\<bar>n\<bar> = 2 ^ 53" by simp
    then have "n = 2 ^ 53 \<or> n = - (2 ^ 53)" by linarith
    then show ?thesis
      by (auto simp: k round_half_even_def pow2_def)
  qed
  from False have "rat_of_int n \<noteq> 0" by simp
  with val small show ?thesis
    by (simp add: round_double_def il(1) abs e Let_def del: of_int_abs)
       (simp add: abs_le_iff abs_less_iff)
qed

lemma js_add_exact:
  "\<bar>a + b\<bar> \<le> 2 ^ 53 \<Longrightarrow>
     js_add (Finite (of_int a)) (Finite (of_int b)) = Finite (of_int (a + b))"
  using round_double_of_int [of "a + b"] by simp

text \<open>Beyond \<open>2^53\<close> a sum is rounded: three sums that the exact result is not.\<close>

lemmas round_double_defs =
  round_double_def ilog2_def round_half_even_def pow2_def Let_def compute_bitlen

lemma js_add_rounded:
  "js_add (Finite 10) (Finite 9007199254740991) = Finite 9007199254741000"
  "js_add (Finite 9007199254741000) (Finite 20) = Finite 9007199254741020"
  "js_add (Finite 10) (Finite 18014398509481974) = Finite 18014398509481984"
  "js_add (Finite 18014398509481984) (Finite (- 1)) = Finite 18014398509481984"
  by (simp_all add: round_double_defs)

section \<open>Lists and the index\<close>

lemma map_update_same: "(\<And>x. f (g x) = f x) \<Longrightarrow> map f (xs[i := g (xs ! i)]) = map f xs"
  by (cases "i < length xs") (auto simp: list_eq_iff_nth_eq nth_list_update)

lemma codes_update_state [simp]:
  "map keyCode (ks[r := (ks ! r)\<lparr>state := s\<rparr>]) = map keyCode ks"
  by (simp add: map_update_same)

lemma state_update_nth:
  "state (ks[r := (ks ! r)\<lparr>state := s\<rparr>] ! i) =
     (if r = i \<and> i < length ks then s else state (ks ! i))"
  by (cases "r < length ks") (auto simp: nth_list_update list_update_beyond)

lemma keys_set_state [simp]:
  "keys (set_state kb r s) = (keys kb)[r := (keys kb ! r)\<lparr>state := s\<rparr>]"
  by (simp add: set_state_def update_key_def)

lemma key_map_set_state [simp]: "key_map (set_state kb r s) = key_map kb"
  by (simp add: set_state_def update_key_def)

lemma remap_loop_codes: "remap_loop ks i m = index_codes (map keyCode ks) i m"
  by (induction ks arbitrary: i m) auto

lemma index_codes_append:
  "index_codes (cs @ ds) n m = index_codes ds (n + length cs) (index_codes cs n m)"
  by (induction cs arbitrary: n m) auto

lemma index_codes_notin: "kc \<notin> set cs \<Longrightarrow> index_codes cs n m kc = m kc"
  by (induction cs arbitrary: n m) auto

lemma index_codes_nth:
  "distinct cs \<Longrightarrow> i < length cs \<Longrightarrow> index_codes cs n m (cs ! i) = Some (n + i)"
proof (induction cs arbitrary: n m i)
  case Nil
  then show ?case by simp
next
  case (Cons c cs)
  show ?case
  proof (cases i)
    case 0
    with Cons.prems show ?thesis by (simp add: index_codes_notin)
  next
    case (Suc j)
    from Cons.prems have "distinct cs" "j < length cs" by (simp_all add: Suc)
    then have "index_codes cs (Suc n) (m(c \<mapsto> n)) (cs ! j) = Some (Suc n + j)"
      by (rule Cons.IH)
    then show ?thesis by (simp add: Suc)
  qed
qed

lemma index_codes_Some:
  "index_codes cs n m kc = Some r \<Longrightarrow>
     m kc = Some r \<or> (n \<le> r \<and> r < n + length cs \<and> cs ! (r - n) = kc)"
proof (induction cs arbitrary: n m)
  case Nil
  then show ?case by simp
next
  case (Cons c cs)
  from Cons.IH [OF Cons.prems [simplified]]
  show ?case
  proof
    assume "(m(c \<mapsto> n)) kc = Some r"
    then show ?thesis by (auto split: if_splits)
  next
    assume a: "Suc n \<le> r \<and> r < Suc n + length cs \<and> cs ! (r - Suc n) = kc"
    then have "r - n = Suc (r - Suc n)" by arith
    with a have "(c # cs) ! (r - n) = kc" by simp
    with a show ?thesis by auto
  qed
qed

lemma indexed_key_map:
  "indexed kb \<longleftrightarrow> key_map kb = index_codes (map keyCode (keys kb)) 0 Map.empty"
proof
  assume "indexed kb"
  then have "key_map (remap kb) = key_map kb" by (simp add: indexed_def)
  then show "key_map kb = index_codes (map keyCode (keys kb)) 0 Map.empty"
    by (simp add: remap_def remap_loop_codes)
next
  assume "key_map kb = index_codes (map keyCode (keys kb)) 0 Map.empty"
  then show "indexed kb"
    by (simp add: indexed_def remap_def remap_loop_codes)
qed

lemma indexed_remap: "indexed (remap kb)"
  by (simp add: indexed_def remap_def)

lemma indexed_Some:
  assumes "indexed kb" "key_map kb kc = Some r"
  shows "r < length (keys kb) \<and> keyCode (keys kb ! r) = kc"
  using assms index_codes_Some [of "map keyCode (keys kb)" 0 Map.empty kc r]
  by (auto simp: indexed_key_map)

lemma indexed_nth:
  assumes "indexed kb" "distinct (map keyCode (keys kb))" "i < length (keys kb)"
  shows "key_map kb (keyCode (keys kb ! i)) = Some i"
  using assms index_codes_nth [of "map keyCode (keys kb)" i 0 Map.empty]
  by (simp add: indexed_key_map)

lemma indexed_None:
  assumes "indexed kb" "kc \<notin> set (map keyCode (keys kb))"
  shows "key_map kb kc = None"
  using assms index_codes_notin [of kc "map keyCode (keys kb)" 0 Map.empty]
  by (simp add: indexed_key_map)

section \<open>One event and sequences of events\<close>

lemma dispatch_key_map [simp]: "key_map (dispatch kb e) = key_map kb"
  by (cases e) (auto simp: onKeyDown_def onKeyUp_def clear_def split: ref.splits)

lemma dispatch_codes [simp]: "map keyCode (keys (dispatch kb e)) = map keyCode (keys kb)"
  by (cases e) (auto simp: onKeyDown_def onKeyUp_def clear_def o_def split: ref.splits)

lemma dispatch_length [simp]: "length (keys (dispatch kb e)) = length (keys kb)"
  using dispatch_codes [of kb e] by (metis length_map)

lemma dispatch_frame: "dispatch kb e = kb\<lparr>keys := keys (dispatch kb e)\<rparr>"
  by (cases e) (auto simp: onKeyDown_def onKeyUp_def clear_def set_state_def update_key_def
      split: ref.splits)

lemma dispatch_all_snoc: "dispatch_all kb (evs @ [e]) = dispatch (dispatch_all kb evs) e"
  by (simp add: dispatch_all_def)

lemma dispatch_all_key_map [simp]: "key_map (dispatch_all kb evs) = key_map kb"
  by (induction evs rule: rev_induct) (simp_all add: dispatch_all_snoc, simp add: dispatch_all_def)

lemma dispatch_all_codes [simp]:
  "map keyCode (keys (dispatch_all kb evs)) = map keyCode (keys kb)"
  by (induction evs rule: rev_induct) (simp_all add: dispatch_all_snoc, simp add: dispatch_all_def)

lemma dispatch_all_length [simp]: "length (keys (dispatch_all kb evs)) = length (keys kb)"
  using dispatch_all_codes [of kb evs] by (metis length_map)

lemma dispatch_all_indexed [simp]: "indexed (dispatch_all kb evs) = indexed kb"
  by (simp add: indexed_key_map)

lemma dispatch_all_keyCode:
  "i < length (keys kb) \<Longrightarrow> keyCode (keys (dispatch_all kb evs) ! i) = keyCode (keys kb ! i)"
  using dispatch_all_codes [of kb evs] by (metis dispatch_all_length nth_map)

lemma on_key_state:
  assumes "indexed kb" "distinct (map keyCode (keys kb))" "i < length (keys kb)"
  shows "state (keys (case map_get (key_map kb) kc of
             KeyRef r \<Rightarrow> set_state kb r s | _ \<Rightarrow> kb) ! i) =
         (if kc = keyCode (keys kb ! i) then s else state (keys kb ! i))"
proof (cases "key_map kb kc")
  case None
  with indexed_nth [OF assms] have "kc \<noteq> keyCode (keys kb ! i)" by auto
  with None show ?thesis by (simp add: map_get_def)
next
  case (Some r)
  from indexed_Some [OF assms(1) Some] have r: "keyCode (keys kb ! r) = kc" by simp
  show ?thesis
  proof (cases "r = i")
    case True
    with Some r assms(3) show ?thesis by (simp add: map_get_def)
  next
    case False
    with indexed_nth [OF assms] Some have "kc \<noteq> keyCode (keys kb ! i)" by auto
    with False Some show ?thesis by (simp add: map_get_def)
  qed
qed

lemma dispatch_state:
  assumes "indexed kb" "distinct (map keyCode (keys kb))" "i < length (keys kb)"
  shows "state (keys (dispatch kb e) ! i) =
     (if relevant (keyCode (keys kb ! i)) e then effect e else state (keys kb ! i))"
proof (cases e)
  case ClearEvent
  with assms show ?thesis by (simp add: relevant_def clear_def)
next
  case (KeyDownEvent kc)
  have "dispatch kb e = (case map_get (key_map kb) kc of KeyRef r \<Rightarrow> set_state kb r Down | _ \<Rightarrow> kb)"
    by (simp add: KeyDownEvent onKeyDown_def split: ref.splits)
  with on_key_state [OF assms, where kc = kc and s = Down] KeyDownEvent show ?thesis
    by (simp add: relevant_def)
next
  case (KeyUpEvent kc)
  have "dispatch kb e = (case map_get (key_map kb) kc of KeyRef r \<Rightarrow> set_state kb r Pressed | _ \<Rightarrow> kb)"
    by (simp add: KeyUpEvent onKeyUp_def split: ref.splits)
  with on_key_state [OF assms, where kc = kc and s = Pressed] KeyUpEvent show ?thesis
    by (simp add: relevant_def)
qed

lemma spec_latest_wins_snoc:
  "spec_latest_wins kc s (evs @ [e]) =
     (if relevant kc e then effect e else spec_latest_wins kc s evs)"
  by (simp add: spec_latest_wins_def Let_def)

lemma dispatch_all_state:
  assumes "indexed kb" "distinct (map keyCode (keys kb))" "i < length (keys kb)"
  shows "state (keys (dispatch_all kb evs) ! i) =
     spec_latest_wins (keyCode (keys kb ! i)) (state (keys kb ! i)) evs"
proof (induction evs rule: rev_induct)
  case Nil
  show ?case by (simp add: dispatch_all_def spec_latest_wins_def)
next
  case (snoc e evs)
  have "state (keys (dispatch (dispatch_all kb evs) e) ! i) =
     (if relevant (keyCode (keys (dispatch_all kb evs) ! i)) e then effect e
      else state (keys (dispatch_all kb evs) ! i))"
    using assms by (intro dispatch_state) simp_all
  with snoc assms(3) show ?case
    by (simp add: dispatch_all_snoc spec_latest_wins_snoc dispatch_all_keyCode)
qed

lemma dispatch_other_keys:
  assumes "indexed kb" "event_code e = Some kc" "keyCode (keys kb ! j) \<noteq> kc"
  shows "keys (dispatch kb e) ! j = keys kb ! j"
proof (cases "key_map kb kc")
  case None
  with assms(2) show ?thesis
    by (cases e) (auto simp: onKeyDown_def onKeyUp_def map_get_def)
next
  case (Some r)
  from indexed_Some [OF assms(1) Some] assms(3) have "r \<noteq> j" by auto
  with Some assms(2) show ?thesis
    by (cases e) (auto simp: onKeyDown_def onKeyUp_def map_get_def)
qed

lemma dispatch_commute:
  assumes "indexed kb" "event_code e1 = Some k1" "event_code e2 = Some k2" "k1 \<noteq> k2"
  shows "dispatch (dispatch kb e1) e2 = dispatch (dispatch kb e2) e1"
proof -
  have neq: "r1 \<noteq> r2" if "key_map kb k1 = Some r1" "key_map kb k2 = Some r2" for r1 r2
    using indexed_Some [OF assms(1) that(1)] indexed_Some [OF assms(1) that(2)] assms(4) by auto
  have upd: "set_state (set_state kb r1 s1) r2 s2 = set_state (set_state kb r2 s2) r1 s1"
    if "r1 \<noteq> r2" for r1 r2 s1 s2
    using that by (simp add: set_state_def update_key_def list_update_swap)
  show ?thesis
    using assms(2,3) neq upd
    by (cases e1; cases e2)
       (auto simp: onKeyDown_def onKeyUp_def map_get_def split: option.splits)
qed

lemma dispatch_all_swap:
  assumes "indexed kb" "event_code e1 = Some k1" "event_code e2 = Some k2" "k1 \<noteq> k2"
  shows "dispatch_all kb (xs @ e1 # e2 # ys) = dispatch_all kb (xs @ e2 # e1 # ys)"
proof -
  have "indexed (dispatch_all kb xs)" using assms(1) by simp
  from dispatch_commute [OF this assms(2,3,4)] show ?thesis
    by (simp add: dispatch_all_def)
qed

lemma dispatch_sticky:
  assumes "e \<noteq> ClearEvent" "state (keys kb ! i) \<noteq> NeverPressed"
  shows "state (keys (dispatch kb e) ! i) \<noteq> NeverPressed"
  using assms
  by (cases e)
     (auto simp: onKeyDown_def onKeyUp_def map_get_def state_update_nth split: option.splits)

lemma dispatch_all_sticky:
  assumes "ClearEvent \<notin> set evs" "state (keys kb ! i) \<noteq> NeverPressed"
  shows "state (keys (dispatch_all kb evs) ! i) \<noteq> NeverPressed"
  using assms
proof (induction evs rule: rev_induct)
  case Nil
  then show ?case by (simp add: dispatch_all_def)
next
  case (snoc e evs)
  then have "state (keys (dispatch_all kb evs) ! i) \<noteq> NeverPressed" by simp
  moreover from snoc.prems have "e \<noteq> ClearEvent" by auto
  ultimately show ?case by (simp add: dispatch_all_snoc dispatch_sticky)
qed

section \<open>Building a layout\<close>

lemma Keyboard_new_fields:
  "keys Keyboard_new = []"
  "key_map Keyboard_new = Map.empty"
  "nextRowPosition Keyboard_new = \<lparr>pos_x = Finite 10, pos_y = Finite 10\<rparr>"
  "startPosition Keyboard_new = \<lparr>pos_x = Finite 10, pos_y = Finite 10\<rparr>"
  "keySize Keyboard_new = \<lparr>width = Some (Finite 20), height = Some (Finite 20)\<rparr>"
  by (simp_all add: Keyboard_new_def Let_def deepCopy_def)

lemma update_key_fields:
  "key_map (update_key kb r f) = key_map kb"
  "nextRowPosition (update_key kb r f) = nextRowPosition kb"
  "startPosition (update_key kb r f) = startPosition kb"
  "keySize (update_key kb r f) = keySize kb"
  "length (keys (update_key kb r f)) = length (keys kb)"
  by (simp_all add: update_key_def)

lemma update_key_codes:
  "(\<And>k. keyCode (f k) = keyCode k) \<Longrightarrow>
     map keyCode (keys (update_key kb r f)) = map keyCode (keys kb)"
  by (simp add: update_key_def map_update_same)

lemma update_key_states:
  "(\<And>k. state (f k) = state k) \<Longrightarrow>
     map state (keys (update_key kb r f)) = map state (keys kb)"
  by (simp add: update_key_def map_update_same)

lemmas build_defs = Let_def nextRow_def Row_addKey_def Row_addGap_def
  Keyboard_addKey_def KeyboardRow_new_def KeyShape_new_def
  deepCopy_def applyDefaultsTo_def to_number_def
  set_size_height_def set_zIndex_def set_position_x_def add_position_y_def
  update_key_fields update_key_codes update_key_states

lemma extends_by_length:
  "extends_by kb cs kb' \<Longrightarrow> length (keys kb') = length (keys kb) + length cs"
proof -
  assume "extends_by kb cs kb'"
  then have "length (map keyCode (keys kb')) = length (map keyCode (keys kb) @ cs)"
    by (simp add: extends_by_def)
  then show ?thesis by simp
qed

lemma extends_by_trans:
  assumes "extends_by a cs b" "extends_by b ds c"
  shows "extends_by a (cs @ ds) c"
  using assms extends_by_length [OF assms(1)]
  by (simp add: extends_by_def index_codes_append replicate_add)

lemma extends_by_new:
  assumes "extends_by Keyboard_new cs kb"
  shows "map keyCode (keys kb) = cs"
    and "map state (keys kb) = replicate (length cs) NeverPressed"
    and "length (keys kb) = length cs"
    and "indexed kb"
    and "pos_x (nextRowPosition kb) = pos_x (startPosition kb)"
  using assms extends_by_length [OF assms]
  by (simp_all add: extends_by_def Keyboard_new_fields indexed_key_map)

lemma extends_by_new_nth:
  assumes "extends_by Keyboard_new cs kb" "i < length cs"
  shows "keyCode (keys kb ! i) = cs ! i" and "state (keys kb ! i) = NeverPressed"
proof -
  note ext = extends_by_new [OF assms(1)]
  from assms(2) have "keyCode (keys kb ! i) = map keyCode (keys kb) ! i"
    by (simp add: ext(3))
  then show "keyCode (keys kb ! i) = cs ! i"
    by (simp add: ext(1))
  from assms(2) have "state (keys kb ! i) = map state (keys kb) ! i"
    by (simp add: ext(3))
  with assms(2) show "state (keys kb ! i) = NeverPressed"
    by (simp add: ext(2))
qed

section \<open>The key codes of the layouts\<close>

text \<open>
  Each row block adds the keys of its row, in the order of its \<open>addKey\<close> calls, and
  enters each in the index; what it writes through a key reference afterwards leaves
  codes and states alone.
\<close>

lemma getWindowsLogitechKeyboard_row1_extends:
  "extends_by kb
     [''Escape'', ''F1'', ''F2'', ''F3'', ''F4'', ''F5'', ''F6'', ''F7'', ''F8'', ''F9'',
      ''F10'', ''F11'', ''F12'', ''f13'', ''ScrollLock'', ''Pause'']
     (getWindowsLogitechKeyboard_row1 kb)"
  by (simp add: extends_by_def getWindowsLogitechKeyboard_row1_def build_defs)

lemma getWindowsLogitechKeyboard_row2_extends:
  "extends_by kb
     [''Backquote'', ''Digit1'', ''Digit2'', ''Digit3'', ''Digit4'', ''Digit5'', ''Digit6'',
      ''Digit7'', ''Digit8'', ''Digit9'', ''Digit0'', ''Minus'', ''Equal'', ''Backspace'',
      ''Insert'', ''Home'', ''PageUp'', ''NumLock'', ''NumpadDivide'', ''NumpadMultiply'',
      ''NumpadSubtract'']
     (getWindowsLogitechKeyboard_row2 kb)"
  by (simp add: extends_by_def getWindowsLogitechKeyboard_row2_def build_defs)

lemma getWindowsLogitechKeyboard_row3_extends:
  "extends_by kb
     [''Tab'', ''KeyQ'', ''KeyW'', ''KeyE'', ''KeyR'', ''KeyT'', ''KeyY'', ''KeyU'', ''KeyI'',
      ''KeyO'', ''KeyP'', ''BracketLeft'', ''BracketRight'', ''Backslash'', ''Delete'',
      ''End'', ''PageDown'', ''Numpad7'', ''Numpad8'', ''Numpad9'', ''NumpadAdd'']
     (getWindowsLogitechKeyboard_row3 kb)"
  by (simp add: extends_by_def getWindowsLogitechKeyboard_row3_def build_defs)

lemma getWindowsLogitechKeyboard_row4_extends:
  "extends_by kb
     [''CapsLock'', ''KeyA'', ''KeyS'', ''KeyD'', ''KeyF'', ''KeyG'', ''KeyH'', ''KeyJ'',
      ''KeyK'', ''KeyL'', ''Semicolon'', ''Quote'', ''Enter'', ''Numpad4'', ''Numpad5'',
      ''Numpad6'']
     (getWindowsLogitechKeyboard_row4 kb)"
  by (simp add: extends_by_def getWindowsLogitechKeyboard_row4_def build_defs)

lemma getWindowsLogitechKeyboard_row5_extends:
  "extends_by kb
     [''ShiftLeft'', ''KeyZ'', ''KeyX'', ''KeyC'', ''KeyV'', ''KeyB'', ''KeyN'', ''KeyM'',
      ''Comma'', ''Period'', ''Slash'', ''ShiftRight'', ''ArrowUp'', ''Numpad1'', ''Numpad2'',
      ''Numpad3'', ''NumpadEnter'']
     (getWindowsLogitechKeyboard_row5 kb)"
  by (simp add: extends_by_def getWindowsLogitechKeyboard_row5_def build_defs)

lemma getWindowsLogitechKeyboard_row6_extends:
  "extends_by kb
     [''ControlLeft'', ''MetaLeft'', ''AltLeft'', ''Space'', ''AltRight'', ''ContextMenu'',
      ''ControlRight'', ''ArrowLeft'', ''ArrowDown'', ''ArrowRight'', ''Numpad0'',
      ''NumpadDecimal'']
     (getWindowsLogitechKeyboard_row6 kb)"
  by (simp add: extends_by_def getWindowsLogitechKeyboard_row6_def build_defs)

lemma getWindowsLogitechKeyboard_extends:
  "extends_by Keyboard_new
     [''Escape'', ''F1'', ''F2'', ''F3'', ''F4'', ''F5'', ''F6'', ''F7'', ''F8'', ''F9'',
      ''F10'', ''F11'', ''F12'', ''f13'', ''ScrollLock'', ''Pause'', ''Backquote'', ''Digit1'',
      ''Digit2'', ''Digit3'', ''Digit4'', ''Digit5'', ''Digit6'', ''Digit7'', ''Digit8'',
      ''Digit9'', ''Digit0'', ''Minus'', ''Equal'', ''Backspace'', ''Insert'', ''Home'',
      ''PageUp'', ''NumLock'', ''NumpadDivide'', ''NumpadMultiply'', ''NumpadSubtract'',
      ''Tab'', ''KeyQ'', ''KeyW'', ''KeyE'', ''KeyR'', ''KeyT'', ''KeyY'', ''KeyU'', ''KeyI'',
      ''KeyO'', ''KeyP'', ''BracketLeft'', ''BracketRight'', ''Backslash'', ''Delete'',
      ''End'', ''PageDown'', ''Numpad7'', ''Numpad8'', ''Numpad9'', ''NumpadAdd'',
      ''CapsLock'', ''KeyA'', ''KeyS'', ''KeyD'', ''KeyF'', ''KeyG'', ''KeyH'', ''KeyJ'',
      ''KeyK'', ''KeyL'', ''Semicolon'', ''Quote'', ''Enter'', ''Numpad4'', ''Numpad5'',
      ''Numpad6'', ''ShiftLeft'', ''KeyZ'', ''KeyX'', ''KeyC'', ''KeyV'', ''KeyB'', ''KeyN'',
      ''KeyM'', ''Comma'', ''Period'', ''Slash'', ''ShiftRight'', ''ArrowUp'', ''Numpad1'',
      ''Numpad2'', ''Numpad3'', ''NumpadEnter'', ''ControlLeft'', ''MetaLeft'', ''AltLeft'',
      ''Space'', ''AltRight'', ''ContextMenu'', ''ControlRight'', ''ArrowLeft'', ''ArrowDown'',
      ''ArrowRight'', ''Numpad0'', ''NumpadDecimal'']
     getWindowsLogitechKeyboard"
proof -
  note r1 = getWindowsLogitechKeyboard_row1_extends [of Keyboard_new]
  note r2 = extends_by_trans [OF r1 getWindowsLogitechKeyboard_row2_extends]
  note r3 = extends_by_trans [OF r2 getWindowsLogitechKeyboard_row3_extends]
  note r4 = extends_by_trans [OF r3 getWindowsLogitechKeyboard_row4_extends]
  note r5 = extends_by_trans [OF r4 getWindowsLogitechKeyboard_row5_extends]
  note r6 = extends_by_trans [OF r5 getWindowsLogitechKeyboard_row6_extends]
  from r6 show ?thesis by (simp add: getWindowsLogitechKeyboard_def Let_def)
qed

lemma getWindowsLogitechKeyboard_indexed: "indexed getWindowsLogitechKeyboard"
  using getWindowsLogitechKeyboard_extends by (rule extends_by_new(4))

lemma getWindowsLogitechKeyboard_distinct: "distinct (map keyCode (keys getWindowsLogitechKeyboard))"
  by (simp add: extends_by_new(1) [OF getWindowsLogitechKeyboard_extends])

lemma getWindowsHPDesktopKeyboard_row1_extends:
  "extends_by kb
     [''Escape'', ''F1'', ''F2'', ''F3'', ''F4'', ''F5'', ''F6'', ''F7'', ''F8'', ''F9'',
      ''F10'', ''F11'', ''F12'', ''f13'', ''ScrollLock'', ''Pause'']
     (getWindowsHPDesktopKeyboard_row1 kb)"
  by (simp add: extends_by_def getWindowsHPDesktopKeyboard_row1_def build_defs)

lemma getWindowsHPDesktopKeyboard_row2_extends:
  "extends_by kb
     [''Backquote'', ''Digit1'', ''Digit2'', ''Digit3'', ''Digit4'', ''Digit5'', ''Digit6'',
      ''Digit7'', ''Digit8'', ''Digit9'', ''Digit0'', ''Minus'', ''Equal'', ''Backspace'',
      ''Insert'', ''Home'', ''PageUp'', ''NumLock'', ''NumpadDivide'', ''NumpadMultiply'',
      ''NumpadSubtract'']
     (getWindowsHPDesktopKeyboard_row2 kb)"
  by (simp add: extends_by_def getWindowsHPDesktopKeyboard_row2_def build_defs)

lemma getWindowsHPDesktopKeyboard_row3_extends:
  "extends_by kb
     [''Tab'', ''KeyQ'', ''KeyW'', ''KeyE'', ''KeyR'', ''KeyT'', ''KeyY'', ''KeyU'', ''KeyI'',
      ''KeyO'', ''KeyP'', ''BracketLeft'', ''BracketRight'', ''Backslash'', ''Delete'',
      ''End'', ''PageDown'', ''Numpad7'', ''Numpad8'', ''Numpad9'', ''NumpadAdd'']
     (getWindowsHPDesktopKeyboard_row3 kb)"
  by (simp add: extends_by_def getWindowsHPDesktopKeyboard_row3_def build_defs)

lemma getWindowsHPDesktopKeyboard_row4_extends:
  "extends_by kb
     [''CapsLock'', ''KeyA'', ''KeyS'', ''KeyD'', ''KeyF'', ''KeyG'', ''KeyH'', ''KeyJ'',
      ''KeyK'', ''KeyL'', ''Semicolon'', ''Quote'', ''Enter'', ''Numpad4'', ''Numpad5'',
      ''Numpad6'']
     (getWindowsHPDesktopKeyboard_row4 kb)"
  by (simp add: extends_by_def getWindowsHPDesktopKeyboard_row4_def build_defs)

lemma getWindowsHPDesktopKeyboard_row5_extends:
  "extends_by kb
     [''ShiftLeft'', ''KeyZ'', ''KeyX'', ''KeyC'', ''KeyV'', ''KeyB'', ''KeyN'', ''KeyM'',
      ''Comma'', ''Period'', ''Slash'', ''ShiftRight'', ''ArrowUp'', ''Numpad1'', ''Numpad2'',
      ''Numpad3'', ''NumpadEnter'']
     (getWindowsHPDesktopKeyboard_row5 kb)"
  by (simp add: extends_by_def getWindowsHPDesktopKeyboard_row5_def build_defs)

lemma getWindowsHPDesktopKeyboard_row6_extends:
  "extends_by kb
     [''ControlLeft'', ''MetaLeft'', ''AltLeft'', ''Space'', ''AltRight'', ''MetaRight'',
      ''ContextMenu'', ''ControlRight'', ''ArrowLeft'', ''ArrowDown'', ''ArrowRight'',
      ''Numpad0'', ''NumpadDecimal'']
     (getWindowsHPDesktopKeyboard_row6 kb)"
  by (simp add: extends_by_def getWindowsHPDesktopKeyboard_row6_def build_defs)

lemma getWindowsHPDesktopKeyboard_extends:
  "extends_by Keyboard_new
     [''Escape'', ''F1'', ''F2'', ''F3'', ''F4'', ''F5'', ''F6'', ''F7'', ''F8'', ''F9'',
      ''F10'', ''F11'', ''F12'', ''f13'', ''ScrollLock'', ''Pause'', ''Backquote'', ''Digit1'',
      ''Digit2'', ''Digit3'', ''Digit4'', ''Digit5'', ''Digit6'', ''Digit7'', ''Digit8'',
      ''Digit9'', ''Digit0'', ''Minus'', ''Equal'', ''Backspace'', ''Insert'', ''Home'',
      ''PageUp'', ''NumLock'', ''NumpadDivide'', ''NumpadMultiply'', ''NumpadSubtract'',
      ''Tab'', ''KeyQ'', ''KeyW'', ''KeyE'', ''KeyR'', ''KeyT'', ''KeyY'', ''KeyU'', ''KeyI'',
      ''KeyO'', ''KeyP'', ''BracketLeft'', ''BracketRight'', ''Backslash'', ''Delete'',
      ''End'', ''PageDown'', ''Numpad7'', ''Numpad8'', ''Numpad9'', ''NumpadAdd'',
      ''CapsLock'', ''KeyA'', ''KeyS'', ''KeyD'', ''KeyF'', ''KeyG'', ''KeyH'', ''KeyJ'',
      ''KeyK'', ''KeyL'', ''Semicolon'', ''Quote'', ''Enter'', ''Numpad4'', ''Numpad5'',
      ''Numpad6'', ''ShiftLeft'', ''KeyZ'', ''KeyX'', ''KeyC'', ''KeyV'', ''KeyB'', ''KeyN'',
      ''KeyM'', ''Comma'', ''Period'', ''Slash'', ''ShiftRight'', ''ArrowUp'', ''Numpad1'',
      ''Numpad2'', ''Numpad3'', ''NumpadEnter'', ''ControlLeft'', ''MetaLeft'', ''AltLeft'',
      ''Space'', ''AltRight'', ''MetaRight'', ''ContextMenu'', ''ControlRight'', ''ArrowLeft'',
      ''ArrowDown'', ''ArrowRight'', ''Numpad0'', ''NumpadDecimal'']
     getWindowsHPDesktopKeyboard"
proof -
  note r1 = getWindowsHPDesktopKeyboard_row1_extends [of Keyboard_new]
  note r2 = extends_by_trans [OF r1 getWindowsHPDesktopKeyboard_row2_extends]
  note r3 = extends_by_trans [OF r2 getWindowsHPDesktopKeyboard_row3_extends]
  note r4 = extends_by_trans [OF r3 getWindowsHPDesktopKeyboard_row4_extends]
  note r5 = extends_by_trans [OF r4 getWindowsHPDesktopKeyboard_row5_extends]
  note r6 = extends_by_trans [OF r5 getWindowsHPDesktopKeyboard_row6_extends]
  from r6 show ?thesis by (simp add: getWindowsHPDesktopKeyboard_def Let_def)
qed

lemma getWindowsHPDesktopKeyboard_indexed: "indexed getWindowsHPDesktopKeyboard"
  using getWindowsHPDesktopKeyboard_extends by (rule extends_by_new(4))

lemma getWindowsHPDesktopKeyboard_distinct: "distinct (map keyCode (keys getWindowsHPDesktopKeyboard))"
  by (simp add: extends_by_new(1) [OF getWindowsHPDesktopKeyboard_extends])

lemma getWindowsGenericKeyboard_row1_extends:
  "extends_by kb
     [''Escape'', ''F1'', ''F2'', ''F3'', ''F4'', ''F5'', ''F6'', ''F7'', ''F8'', ''F9'',
      ''F10'', ''F11'', ''F12'', ''Power'', ''Sleep'', ''Wake'']
     (getWindowsGenericKeyboard_row1 kb)"
  by (simp add: extends_by_def getWindowsGenericKeyboard_row1_def build_defs)

lemma getWindowsGenericKeyboard_row2_extends:
  "extends_by kb
     [''Backquote'', ''Digit1'', ''Digit2'', ''Digit3'', ''Digit4'', ''Digit5'', ''Digit6'',
      ''Digit7'', ''Digit8'', ''Digit9'', ''Digit0'', ''Minus'', ''Equal'', ''Backspace'',
      ''f13'', ''ScrollLock'', ''Pause'', ''NumLock'', ''NumpadDivide'', ''NumpadMultiply'',
      ''NumpadSubtract'']
     (getWindowsGenericKeyboard_row2 kb)"
  by (simp add: extends_by_def getWindowsGenericKeyboard_row2_def build_defs)

lemma getWindowsGenericKeyboard_row3_extends:
  "extends_by kb
     [''Tab'', ''KeyQ'', ''KeyW'', ''KeyE'', ''KeyR'', ''KeyT'', ''KeyY'', ''KeyU'', ''KeyI'',
      ''KeyO'', ''KeyP'', ''BracketLeft'', ''BracketRight'', ''Enter'', ''Insert'', ''Home'',
      ''PageUp'', ''Numpad7'', ''Numpad8'', ''Numpad9'', ''NumpadAdd'']
     (getWindowsGenericKeyboard_row3 kb)"
  by (simp add: extends_by_def getWindowsGenericKeyboard_row3_def build_defs)

lemma getWindowsGenericKeyboard_row4_extends:
  "extends_by kb
     [''CapsLock'', ''KeyA'', ''KeyS'', ''KeyD'', ''KeyF'', ''KeyG'', ''KeyH'', ''KeyJ'',
      ''KeyK'', ''KeyL'', ''Semicolon'', ''Quote'', ''Backslash'', ''Delete'', ''End'',
      ''PageDown'', ''Numpad4'', ''Numpad5'', ''Numpad6'']
     (getWindowsGenericKeyboard_row4 kb)"
  by (simp add: extends_by_def getWindowsGenericKeyboard_row4_def build_defs)

lemma getWindowsGenericKeyboard_row5_extends:
  "extends_by kb
     [''ShiftLeft'', ''KeyZ'', ''KeyX'', ''KeyC'', ''KeyV'', ''KeyB'', ''KeyN'', ''KeyM'',
      ''Comma'', ''Period'', ''Slash'', ''ShiftRight'', ''ArrowUp'', ''Numpad1'', ''Numpad2'',
      ''Numpad3'', ''NumpadEnter'']
     (getWindowsGenericKeyboard_row5 kb)"
  by (simp add: extends_by_def getWindowsGenericKeyboard_row5_def build_defs)

lemma getWindowsGenericKeyboard_row6_extends:
  "extends_by kb
     [''ControlLeft'', ''MetaLeft'', ''AltLeft'', ''Space'', ''AltRight'', ''MetaRight'',
      ''ContextMenu'', ''ControlRight'', ''ArrowLeft'', ''ArrowDown'', ''ArrowRight'',
      ''Numpad0'', ''NumpadDecimal'']
     (getWindowsGenericKeyboard_row6 kb)"
  by (simp add: extends_by_def getWindowsGenericKeyboard_row6_def build_defs)

lemma getWindowsGenericKeyboard_extends:
  "extends_by Keyboard_new
     [''Escape'', ''F1'', ''F2'', ''F3'', ''F4'', ''F5'', ''F6'', ''F7'', ''F8'', ''F9'',
      ''F10'', ''F11'', ''F12'', ''Power'', ''Sleep'', ''Wake'', ''Backquote'', ''Digit1'',
      ''Digit2'', ''Digit3'', ''Digit4'', ''Digit5'', ''Digit6'', ''Digit7'', ''Digit8'',
      ''Digit9'', ''Digit0'', ''Minus'', ''Equal'', ''Backspace'', ''f13'', ''ScrollLock'',
      ''Pause'', ''NumLock'', ''NumpadDivide'', ''NumpadMultiply'', ''NumpadSubtract'',
      ''Tab'', ''KeyQ'', ''KeyW'', ''KeyE'', ''KeyR'', ''KeyT'', ''KeyY'', ''KeyU'', ''KeyI'',
      ''KeyO'', ''KeyP'', ''BracketLeft'', ''BracketRight'', ''Enter'', ''Insert'', ''Home'',
      ''PageUp'', ''Numpad7'', ''Numpad8'', ''Numpad9'', ''NumpadAdd'', ''CapsLock'', ''KeyA'',
      ''KeyS'', ''KeyD'', ''KeyF'', ''KeyG'', ''KeyH'', ''KeyJ'', ''KeyK'', ''KeyL'',
      ''Semicolon'', ''Quote'', ''Backslash'', ''Delete'', ''End'', ''PageDown'', ''Numpad4'',
      ''Numpad5'', ''Numpad6'', ''ShiftLeft'', ''KeyZ'', ''KeyX'', ''KeyC'', ''KeyV'',
      ''KeyB'', ''KeyN'', ''KeyM'', ''Comma'', ''Period'', ''Slash'', ''ShiftRight'',
      ''ArrowUp'', ''Numpad1'', ''Numpad2'', ''Numpad3'', ''NumpadEnter'', ''ControlLeft'',
      ''MetaLeft'', ''AltLeft'', ''Space'', ''AltRight'', ''MetaRight'', ''ContextMenu'',
      ''ControlRight'', ''ArrowLeft'', ''ArrowDown'', ''ArrowRight'', ''Numpad0'',
      ''NumpadDecimal'']
     getWindowsGenericKeyboard"
proof -
  note r1 = getWindowsGenericKeyboard_row1_extends [of Keyboard_new]
  note r2 = extends_by_trans [OF r1 getWindowsGenericKeyboard_row2_extends]
  note r3 = extends_by_trans [OF r2 getWindowsGenericKeyboard_row3_extends]
  note r4 = extends_by_trans [OF r3 getWindowsGenericKeyboard_row4_extends]
  note r5 = extends_by_trans [OF r4 getWindowsGenericKeyboard_row5_extends]
  note r6 = extends_by_trans [OF r5 getWindowsGenericKeyboard_row6_extends]
  from r6 show ?thesis by (simp add: getWindowsGenericKeyboard_def Let_def)
qed

lemma getWindowsGenericKeyboard_indexed: "indexed getWindowsGenericKeyboard"
  using getWindowsGenericKeyboard_extends by (rule extends_by_new(4))

lemma getWindowsGenericKeyboard_distinct: "distinct (map keyCode (keys getWindowsGenericKeyboard))"
  by (simp add: extends_by_new(1) [OF getWindowsGenericKeyboard_extends])

lemma getMacBookProKeyboard_row1_extends:
  "extends_by kb
     [''Escape'', ''F1'', ''F2'', ''F3'', ''F4'', ''F5'', ''F6'', ''F7'', ''F8'', ''F9'',
      ''F10'', ''F11'', ''F12'', ''f13'']
     (getMacBookProKeyboard_row1 kb)"
  by (simp add: extends_by_def getMacBookProKeyboard_row1_def build_defs)

lemma getMacBookProKeyboard_row2_extends:
  "extends_by kb
     [''Backquote'', ''Digit1'', ''Digit2'', ''Digit3'', ''Digit4'', ''Digit5'', ''Digit6'',
      ''Digit7'', ''Digit8'', ''Digit9'', ''Digit0'', ''Minus'', ''Equal'', ''Backspace'']
     (getMacBookProKeyboard_row2 kb)"
  by (simp add: extends_by_def getMacBookProKeyboard_row2_def build_defs)

lemma getMacBookProKeyboard_row3_extends:
  "extends_by kb
     [''Tab'', ''KeyQ'', ''KeyW'', ''KeyE'', ''KeyR'', ''KeyT'', ''KeyY'', ''KeyU'', ''KeyI'',
      ''KeyO'', ''KeyP'', ''BracketLeft'', ''BracketRight'', ''Backslash'']
     (getMacBookProKeyboard_row3 kb)"
  by (simp add: extends_by_def getMacBookProKeyboard_row3_def build_defs)

lemma getMacBookProKeyboard_row4_extends:
  "extends_by kb
     [''CapsLock'', ''KeyA'', ''KeyS'', ''KeyD'', ''KeyF'', ''KeyG'', ''KeyH'', ''KeyJ'',
      ''KeyK'', ''KeyL'', ''Semicolon'', ''Quote'', ''Enter'']
     (getMacBookProKeyboard_row4 kb)"
  by (simp add: extends_by_def getMacBookProKeyboard_row4_def build_defs)

lemma getMacBookProKeyboard_row5_extends:
  "extends_by kb
     [''ShiftLeft'', ''KeyZ'', ''KeyX'', ''KeyC'', ''KeyV'', ''KeyB'', ''KeyN'', ''KeyM'',
      ''Comma'', ''Period'', ''Slash'', ''ShiftRight'']
     (getMacBookProKeyboard_row5 kb)"
  by (simp add: extends_by_def getMacBookProKeyboard_row5_def build_defs)

lemma getMacBookProKeyboard_row6_extends:
  "extends_by kb
     [''Function'', ''ControlLeft'', ''AltLeft'', ''MetaLeft'', ''Space'', ''MetaRight'',
      ''AltRight'', ''ArrowLeft'', ''ArrowDown'', ''ArrowRight'', ''ArrowUp'']
     (getMacBookProKeyboard_row6 kb)"
  by (simp add: extends_by_def getMacBookProKeyboard_row6_def build_defs)

lemma getMacBookProKeyboard_extends:
  "extends_by Keyboard_new
     [''Escape'', ''F1'', ''F2'', ''F3'', ''F4'', ''F5'', ''F6'', ''F7'', ''F8'', ''F9'',
      ''F10'', ''F11'', ''F12'', ''f13'', ''Backquote'', ''Digit1'', ''Digit2'', ''Digit3'',
      ''Digit4'', ''Digit5'', ''Digit6'', ''Digit7'', ''Digit8'', ''Digit9'', ''Digit0'',
      ''Minus'', ''Equal'', ''Backspace'', ''Tab'', ''KeyQ'', ''KeyW'', ''KeyE'', ''KeyR'',
      ''KeyT'', ''KeyY'', ''KeyU'', ''KeyI'', ''KeyO'', ''KeyP'', ''BracketLeft'',
      ''BracketRight'', ''Backslash'', ''CapsLock'', ''KeyA'', ''KeyS'', ''KeyD'', ''KeyF'',
      ''KeyG'', ''KeyH'', ''KeyJ'', ''KeyK'', ''KeyL'', ''Semicolon'', ''Quote'', ''Enter'',
      ''ShiftLeft'', ''KeyZ'', ''KeyX'', ''KeyC'', ''KeyV'', ''KeyB'', ''KeyN'', ''KeyM'',
      ''Comma'', ''Period'', ''Slash'', ''ShiftRight'', ''Function'', ''ControlLeft'',
      ''AltLeft'', ''MetaLeft'', ''Space'', ''MetaRight'', ''AltRight'', ''ArrowLeft'',
      ''ArrowDown'', ''ArrowRight'', ''ArrowUp'']
     getMacBookProKeyboard"
proof -
  note r1 = getMacBookProKeyboard_row1_extends [of Keyboard_new]
  note r2 = extends_by_trans [OF r1 getMacBookProKeyboard_row2_extends]
  note r3 = extends_by_trans [OF r2 getMacBookProKeyboard_row3_extends]
  note r4 = extends_by_trans [OF r3 getMacBookProKeyboard_row4_extends]
  note r5 = extends_by_trans [OF r4 getMacBookProKeyboard_row5_extends]
  note r6 = extends_by_trans [OF r5 getMacBookProKeyboard_row6_extends]
  from r6 show ?thesis by (simp add: getMacBookProKeyboard_def Let_def)
qed

lemma getMacBookProKeyboard_indexed: "indexed getMacBookProKeyboard"
  using getMacBookProKeyboard_extends by (rule extends_by_new(4))

lemma getMacBookProKeyboard_distinct: "distinct (map keyCode (keys getMacBookProKeyboard))"
  by (simp add: extends_by_new(1) [OF getMacBookProKeyboard_extends])

section \<open>The derived layout\<close>

lemma getWindowsLogitechKeyboard_ContextMenu:
  "key_map getWindowsLogitechKeyboard ''ContextMenu'' = Some 96"
proof -
  note ext = extends_by_new [OF getWindowsLogitechKeyboard_extends]
  have "keyCode (keys getWindowsLogitechKeyboard ! 96) =
      map keyCode (keys getWindowsLogitechKeyboard) ! 96"
    by (simp add: ext(3))
  also have "\<dots> = ''ContextMenu''"
    by (simp add: ext(1))
  finally have "keyCode (keys getWindowsLogitechKeyboard ! 96) = ''ContextMenu''" .
  with indexed_nth [OF getWindowsLogitechKeyboard_indexed getWindowsLogitechKeyboard_distinct,
      of 96]
  show ?thesis by (simp add: ext(3))
qed

lemma getWindowsLogitech2Keyboard_value:
  "getWindowsLogitech2Keyboard =
     Inr (remap (update_key (update_key getWindowsLogitechKeyboard 96
        (\<lambda>k. k\<lparr>displayChar := ''Fn''\<rparr>)) 96 (\<lambda>k. k\<lparr>keyCode := ''Fn''\<rparr>)))"
  by (simp add: getWindowsLogitech2Keyboard_def getKey_def map_get_def Let_def
      getWindowsLogitechKeyboard_ContextMenu)

lemma getWindowsLogitech2Keyboard_keys:
  assumes "getWindowsLogitech2Keyboard = Inr kb"
  shows "keys kb = (keys getWindowsLogitechKeyboard)
     [96 := (keys getWindowsLogitechKeyboard ! 96)\<lparr>displayChar := ''Fn'', keyCode := ''Fn''\<rparr>]"
    and "indexed kb"
    and "length (keys kb) = 103"
  using assms
  by (auto simp: getWindowsLogitech2Keyboard_value remap_def update_key_def indexed_def
      extends_by_new(3) [OF getWindowsLogitechKeyboard_extends])

lemma getWindowsLogitech2Keyboard_codes:
  assumes "getWindowsLogitech2Keyboard = Inr kb"
  shows "map keyCode (keys kb) =
     [''Escape'', ''F1'', ''F2'', ''F3'', ''F4'', ''F5'', ''F6'', ''F7'', ''F8'', ''F9'',
      ''F10'', ''F11'', ''F12'', ''f13'', ''ScrollLock'', ''Pause'', ''Backquote'', ''Digit1'',
      ''Digit2'', ''Digit3'', ''Digit4'', ''Digit5'', ''Digit6'', ''Digit7'', ''Digit8'',
      ''Digit9'', ''Digit0'', ''Minus'', ''Equal'', ''Backspace'', ''Insert'', ''Home'',
      ''PageUp'', ''NumLock'', ''NumpadDivide'', ''NumpadMultiply'', ''NumpadSubtract'',
      ''Tab'', ''KeyQ'', ''KeyW'', ''KeyE'', ''KeyR'', ''KeyT'', ''KeyY'', ''KeyU'', ''KeyI'',
      ''KeyO'', ''KeyP'', ''BracketLeft'', ''BracketRight'', ''Backslash'', ''Delete'',
      ''End'', ''PageDown'', ''Numpad7'', ''Numpad8'', ''Numpad9'', ''NumpadAdd'',
      ''CapsLock'', ''KeyA'', ''KeyS'', ''KeyD'', ''KeyF'', ''KeyG'', ''KeyH'', ''KeyJ'',
      ''KeyK'', ''KeyL'', ''Semicolon'', ''Quote'', ''Enter'', ''Numpad4'', ''Numpad5'',
      ''Numpad6'', ''ShiftLeft'', ''KeyZ'', ''KeyX'', ''KeyC'', ''KeyV'', ''KeyB'', ''KeyN'',
      ''KeyM'', ''Comma'', ''Period'', ''Slash'', ''ShiftRight'', ''ArrowUp'', ''Numpad1'',
      ''Numpad2'', ''Numpad3'', ''NumpadEnter'', ''ControlLeft'', ''MetaLeft'', ''AltLeft'',
      ''Space'', ''AltRight'', ''Fn'', ''ControlRight'', ''ArrowLeft'', ''ArrowDown'',
      ''ArrowRight'', ''Numpad0'', ''NumpadDecimal'']"
proof -
  have "map keyCode (keys kb) = (map keyCode (keys getWindowsLogitechKeyboard))[96 := ''Fn'']"
    by (simp add: getWindowsLogitech2Keyboard_keys(1) [OF assms] map_update)
  then show ?thesis
    unfolding extends_by_new(1) [OF getWindowsLogitechKeyboard_extends]
    by (simp add: eval_nat_numeral)
qed

lemma getWindowsLogitech2Keyboard_states:
  assumes "getWindowsLogitech2Keyboard = Inr kb"
  shows "map state (keys kb) = map state (keys getWindowsLogitechKeyboard)"
  using map_update_same [of state "\<lambda>k. k\<lparr>displayChar := ''Fn'', keyCode := ''Fn''\<rparr>"
      "keys getWindowsLogitechKeyboard" 96]
  by (simp add: getWindowsLogitech2Keyboard_keys(1) [OF assms])

lemma getWindowsLogitech2Keyboard_distinct:
  assumes "getWindowsLogitech2Keyboard = Inr kb"
  shows "distinct (map keyCode (keys kb))"
  by (simp add: getWindowsLogitech2Keyboard_codes [OF assms])

section \<open>The claims\<close>

subsection \<open>Event sequences\<close>






text \<open>
  C3. After \<open>clear\<close> every key of the keyboard is \<open>NeverPressed\<close>, whatever its state was;
  the keys are the same in number and keep their key codes.
\<close>

theorem clear_resets_every_key:
  "length (keys (clear kb)) = length (keys kb) \<and>
   map state (keys (clear kb)) = replicate (length (keys kb)) NeverPressed \<and>
   map keyCode (keys (clear kb)) = map keyCode (keys kb) \<and>
   clear kb = kb\<lparr>keys := keys (clear kb)\<rparr>"
  by (simp add: clear_def map_replicate_const o_def)

subsection \<open>Identifiers that match no key\<close>

text \<open>An identifier that is neither in the index nor a name of \<open>Object.prototype\<close> is ignored.\<close>

lemma unknown_code_ignored:
  assumes "key_map kb kc = None" and "kc \<notin> set Object_prototype_names"
  shows "onKeyDown kb kc = Inr kb" and "onKeyUp kb kc = Inr kb"
  using assms by (simp_all add: onKeyDown_def onKeyUp_def map_get_def)

text \<open>
  C4. The claim does not hold for the names that every object inherits. On the generic
  Windows layout no key has the code \<open>toString\<close> and the index has no such entry, yet a
  key-down or key-up with that identifier ends in a TypeError.
\<close>

theorem inherited_name_raises:
  "''toString'' \<notin> set (map keyCode (keys getWindowsGenericKeyboard)) \<and>
   key_map getWindowsGenericKeyboard ''toString'' = None \<and>
   onKeyDown getWindowsGenericKeyboard ''toString'' = Inl TypeError \<and>
   onKeyUp getWindowsGenericKeyboard ''toString'' = Inl TypeError"
proof -
  have notin: "''toString'' \<notin> set (map keyCode (keys getWindowsGenericKeyboard))"
    by (simp add: extends_by_new(1) [OF getWindowsGenericKeyboard_extends])
  from indexed_None [OF getWindowsGenericKeyboard_indexed notin]
  have none: "key_map getWindowsGenericKeyboard ''toString'' = None" .
  with notin show ?thesis
    by (simp add: onKeyDown_def onKeyUp_def map_get_def Object_prototype_names_def)
qed

text \<open>\<open>getKey\<close> writes nothing to the console and never returns \<open>null\<close>.\<close>

lemma getKey_silent: "snd (getKey kb kc) = [] \<and> fst (getKey kb kc) \<noteq> NullRef"
  by (simp add: getKey_def map_get_def Let_def split: option.splits)

text \<open>
  C5. The claim does not hold: the Logitech layout has no key \<open>MetaRight\<close>, and \<open>getKey\<close>
  for it returns \<open>undefined\<close> and reports nothing.
\<close>

theorem getKey_reports_nothing:
  "''MetaRight'' \<notin> set (map keyCode (keys getWindowsLogitechKeyboard)) \<and>
   getKey getWindowsLogitechKeyboard ''MetaRight'' = (Undefined, [])"
proof -
  have notin: "''MetaRight'' \<notin> set (map keyCode (keys getWindowsLogitechKeyboard))"
    by (simp add: extends_by_new(1) [OF getWindowsLogitechKeyboard_extends])
  from indexed_None [OF getWindowsLogitechKeyboard_indexed notin]
  have "key_map getWindowsLogitechKeyboard ''MetaRight'' = None" .
  with notin show ?thesis
    by (simp add: getKey_def map_get_def Object_prototype_names_def)
qed

subsection \<open>Rows, keys and gaps\<close>

text \<open>Whole numbers that a layout writes are doubles, and small sums of them are exact.\<close>

lemma round_double_numeral:
  "numeral k \<le> (2 ^ 53 :: int) \<Longrightarrow> round_double (numeral k) = Finite (numeral k)"
  "numeral k \<le> (2 ^ 53 :: int) \<Longrightarrow> round_double (- numeral k) = Finite (- numeral k)"
  "round_double 0 = Finite 0"
  using round_double_of_int [of "numeral k"] round_double_of_int [of "- numeral k"]
  by (simp_all add: round_double_def)

text \<open>A width above zero is kept, and the cursor moves by it.\<close>

lemma addKey_given_width:
  assumes "js_gt w (Finite 0)"
  shows "(case Row_addKey row kb dc kc (Val w) sh of (r, row', kb') \<Rightarrow>
       width (key_size (keys kb' ! r)) = Some w \<and>
       pos_x (nextPosition row') = js_add (pos_x (nextPosition row)) w)"
  using assms
  by (simp add: Row_addKey_def Let_def Keyboard_addKey_def applyDefaultsTo_def deepCopy_def
      KeyShape_new_def to_number_def)



text \<open>
  The row cursor of a keyboard stands at the left margin: the constructor puts it there,
  \<open>nextRow\<close> puts it back, and nothing else moves it.
\<close>

lemma cursor_at_margin:
  "pos_x (nextRowPosition Keyboard_new) = pos_x (startPosition Keyboard_new)"
  "pos_x (nextRowPosition (snd (nextRow kb gap))) = pos_x (startPosition (snd (nextRow kb gap)))"
  "nextRowPosition (snd (snd (Row_addKey row kb dc kc wa sh))) = nextRowPosition kb"
  "startPosition (snd (snd (Row_addKey row kb dc kc wa sh))) = startPosition kb"
  "nextRowPosition (update_key kb r f) = nextRowPosition kb"
  "startPosition (update_key kb r f) = startPosition kb"
  "nextRowPosition (remap kb) = nextRowPosition kb"
  "startPosition (remap kb) = startPosition kb"
  by (simp_all add: Keyboard_new_fields nextRow_def Row_addKey_def Keyboard_addKey_def Let_def
      update_key_def remap_def)

lemma cursor_at_margin_dispatch:
  "nextRowPosition (dispatch kb e) = nextRowPosition kb"
  "startPosition (dispatch kb e) = startPosition kb"
  by (subst dispatch_frame, simp)+

text \<open>
  C7. For a keyboard whose row cursor stands at the left margin, as it does for every
  keyboard built with the constructor and the methods, \<open>nextRow(gap)\<close> returns a row at
  \<open>(startPosition.x, y + gap)\<close> with its cursor there, \<open>y\<close> being \<open>nextRowPosition.y\<close>, and
  leaves the vertical cursor of the keyboard at \<open>(y + gap) + keySize.height\<close>; the sums are
  sums of doubles, the second taken after the first is rounded, and nothing else of the
  keyboard changes. Leaving the gap out is a gap of \<open>0\<close>. When \<open>y\<close>, the gap and the key
  height are whole numbers and \<open>y + gap\<close> and \<open>y + gap + height\<close> are at most \<open>2^53\<close> in
  magnitude, the row is at exactly \<open>y + gap\<close> and the cursor has moved on by exactly
  \<open>gap + height\<close>.
\<close>

theorem nextRow_position:
  assumes "pos_x (nextRowPosition kb) = pos_x (startPosition kb)"
  shows "nextRow kb Omitted = nextRow kb (Val (Finite 0)) \<and>
    (case nextRow kb (Val gap) of (row, kb') \<Rightarrow>
      row_position row =
        \<lparr>pos_x = pos_x (startPosition kb), pos_y = js_add (pos_y (nextRowPosition kb)) gap\<rparr> \<and>
      nextPosition row = row_position row \<and>
      nextRowPosition kb' =
        \<lparr>pos_x = pos_x (startPosition kb),
         pos_y = js_add (js_add (pos_y (nextRowPosition kb)) gap)
                   (to_number (height (keySize kb)))\<rparr> \<and>
      kb' = kb\<lparr>nextRowPosition := nextRowPosition kb'\<rparr>) \<and>
    (pos_y (nextRowPosition kb) = Finite (of_int y) \<longrightarrow> gap = Finite (of_int g) \<longrightarrow>
     height (keySize kb) = Some (Finite (of_int h)) \<longrightarrow>
     \<bar>y + g\<bar> \<le> 2 ^ 53 \<longrightarrow> \<bar>y + g + h\<bar> \<le> 2 ^ 53 \<longrightarrow>
       pos_y (row_position (fst (nextRow kb (Val gap)))) = Finite (of_int (y + g)) \<and>
       pos_y (nextRowPosition (snd (nextRow kb (Val gap)))) = Finite (of_int (y + (g + h))))"
proof -
  have exact: "js_add (js_add (Finite (of_int y)) (Finite (of_int g))) (Finite (of_int h)) =
      Finite (of_int (y + (g + h)))"
    if "\<bar>y + g\<bar> \<le> 2 ^ 53" "\<bar>y + g + h\<bar> \<le> 2 ^ 53"
    using that js_add_exact [of y g] js_add_exact [of "y + g" h]
    by (simp add: add.assoc del: js_add.simps)
  from assms exact show ?thesis
    by (simp add: nextRow_def Let_def KeyboardRow_new_def deepCopy_def to_number_def
        js_add_exact del: js_add.simps)
qed

text \<open>The second row of the layouts, \<open>nextRow(5)\<close> after one row: from \<open>y = 30\<close> to 35 and 55.\<close>

theorem nextRow_position_witness:
  "pos_x (nextRowPosition (snd (nextRow Keyboard_new Omitted))) =
     pos_x (startPosition (snd (nextRow Keyboard_new Omitted))) \<and>
   pos_y (nextRowPosition (snd (nextRow Keyboard_new Omitted))) = Finite (of_int 30) \<and>
   height (keySize (snd (nextRow Keyboard_new Omitted))) = Some (Finite (of_int 20)) \<and>
   \<bar>30 + 5\<bar> \<le> (2 ^ 53 :: int) \<and> \<bar>30 + 5 + 20\<bar> \<le> (2 ^ 53 :: int) \<and>
   row_position (fst (nextRow (snd (nextRow Keyboard_new Omitted)) (Val (Finite 5)))) =
     \<lparr>pos_x = Finite 10, pos_y = Finite 35\<rparr> \<and>
   nextRowPosition (snd (nextRow (snd (nextRow Keyboard_new Omitted)) (Val (Finite 5)))) =
     \<lparr>pos_x = Finite 10, pos_y = Finite 55\<rparr>"
proof -
  have h: "pos_x (nextRowPosition (snd (nextRow Keyboard_new Omitted))) =
     pos_x (startPosition (snd (nextRow Keyboard_new Omitted)))"
    by (rule cursor_at_margin)
  have v: "nextRowPosition (snd (nextRow Keyboard_new Omitted)) =
      \<lparr>pos_x = Finite 10, pos_y = Finite 30\<rparr>"
    "startPosition (snd (nextRow Keyboard_new Omitted)) = \<lparr>pos_x = Finite 10, pos_y = Finite 10\<rparr>"
    "keySize (snd (nextRow Keyboard_new Omitted)) =
      \<lparr>width = Some (Finite 20), height = Some (Finite 20)\<rparr>"
    by (simp_all add: nextRow_def Let_def Keyboard_new_fields to_number_def round_double_numeral)
  note t = nextRow_position [OF h, of "Finite 5" 30 5 20]
  from t [THEN conjunct2, THEN conjunct1] t [THEN conjunct2, THEN conjunct2] h show ?thesis
    by (simp add: v to_number_def round_double_numeral split: prod.splits)
qed

text \<open>
  As the claim has it, for every gap the row is at exactly \<open>y + gap\<close> and the cursor moves on
  by exactly \<open>gap + height\<close>. On a new keyboard (\<open>y = 10\<close>, key height 20) with the gap
  \<open>2^53 - 1\<close> the row is at 9007199254741000, not 9007199254741001, and the cursor ends at
  9007199254741020, not 9007199254741021.
\<close>

theorem nextRow_position_counterexample:
  "pos_y (nextRowPosition Keyboard_new) = Finite 10 \<and>
   height (keySize Keyboard_new) = Some (Finite 20) \<and>
   pos_y (row_position (fst (nextRow Keyboard_new (Val (Finite 9007199254740991))))) =
     Finite 9007199254741000 \<and>
   Finite 9007199254741000 \<noteq> Finite (10 + 9007199254740991) \<and>
   pos_y (nextRowPosition (snd (nextRow Keyboard_new (Val (Finite 9007199254740991))))) =
     Finite 9007199254741020 \<and>
   Finite 9007199254741020 \<noteq> Finite (10 + (9007199254740991 + 20))"
  by (simp add: nextRow_def Let_def KeyboardRow_new_def deepCopy_def Keyboard_new_fields
      to_number_def js_add_rounded del: js_add.simps)

text \<open>
  C10. \<open>addGap(w)\<close> sets the cursor of the row to the sum of cursor and \<open>w\<close>, a sum of
  doubles, whatever \<open>w\<close> is, and touches nothing else of the row; no value of \<open>w\<close> is
  replaced by a default. The keyboard is not among what it reads or writes, so it creates
  no key: the key added after a gap has the reference it would have had without the gap, and
  is placed at the new cursor. When cursor and \<open>w\<close> are whole numbers and their sum is at
  most \<open>2^53\<close> in magnitude, the cursor moves by exactly \<open>w\<close>, and it moves left exactly when
  \<open>w\<close> is negative.
\<close>

theorem addGap_moves_cursor:
  "nextPosition (Row_addGap row w) =
     (nextPosition row)\<lparr>pos_x := js_add (pos_x (nextPosition row)) w\<rparr> \<and>
   row_position (Row_addGap row w) = row_position row \<and>
   fst (Row_addKey (Row_addGap row w) kb dc kc wa sh) = fst (Row_addKey row kb dc kc wa sh) \<and>
   length (keys (snd (snd (Row_addKey (Row_addGap row w) kb dc kc wa sh)))) =
     Suc (length (keys kb)) \<and>
   position (keys (snd (snd (Row_addKey (Row_addGap row w) kb dc kc wa sh))) ! length (keys kb)) =
     (nextPosition row)\<lparr>pos_x := js_add (pos_x (nextPosition row)) w\<rparr> \<and>
   (pos_x (nextPosition row) = Finite (of_int x) \<longrightarrow> w = Finite (of_int d) \<longrightarrow>
    \<bar>x + d\<bar> \<le> 2 ^ 53 \<longrightarrow>
      pos_x (nextPosition (Row_addGap row w)) = Finite (of_int (x + d)) \<and>
      js_gt (pos_x (nextPosition row)) (pos_x (nextPosition (Row_addGap row w))) = (d < 0))"
  by (simp add: Row_addGap_def Row_addKey_def Let_def Keyboard_addKey_def deepCopy_def
      KeyShape_new_def js_add_exact del: js_add.simps split: arg.splits)

text \<open>The first row of a new keyboard, cursor at 10: a gap of \<open>-5\<close> takes it to 5.\<close>

theorem addGap_moves_cursor_witness:
  "pos_x (nextPosition (fst (nextRow Keyboard_new Omitted))) = Finite (of_int 10) \<and>
   Finite (- 5) = Finite (of_int (- 5)) \<and> \<bar>10 + (- 5)\<bar> \<le> (2 ^ 53 :: int) \<and>
   pos_x (nextPosition (Row_addGap (fst (nextRow Keyboard_new Omitted)) (Finite (- 5)))) =
     Finite 5 \<and>
   js_gt (pos_x (nextPosition (fst (nextRow Keyboard_new Omitted))))
     (pos_x (nextPosition (Row_addGap (fst (nextRow Keyboard_new Omitted)) (Finite (- 5)))))"
proof -
  have x: "pos_x (nextPosition (fst (nextRow Keyboard_new Omitted))) = Finite (of_int 10)"
    by (simp add: nextRow_def Let_def KeyboardRow_new_def deepCopy_def Keyboard_new_fields)
  from addGap_moves_cursor [of "fst (nextRow Keyboard_new Omitted)" "Finite (- 5)" _ _ _ _ _
      10 "- 5", THEN conjunct2, THEN conjunct2, THEN conjunct2, THEN conjunct2, THEN conjunct2]
    x
  show ?thesis by simp
qed

text \<open>
  As the claim has it, the cursor moves by exactly \<open>w\<close> for every \<open>w\<close>, and left for a negative
  one. In the first row of a new keyboard, cursor at 10, a gap of \<open>2^53 - 1\<close> takes the
  cursor to 9007199254741000, not 9007199254741001; and after a gap that takes it to
  \<open>2^54\<close>, a gap of \<open>-1\<close> leaves it where it is.
\<close>

theorem addGap_moves_cursor_counterexample:
  "pos_x (nextPosition (fst (nextRow Keyboard_new Omitted))) = Finite 10 \<and>
   pos_x (nextPosition (Row_addGap (fst (nextRow Keyboard_new Omitted))
      (Finite 9007199254740991))) = Finite 9007199254741000 \<and>
   Finite 9007199254741000 \<noteq> Finite (10 + 9007199254740991) \<and>
   pos_x (nextPosition (Row_addGap (fst (nextRow Keyboard_new Omitted))
      (Finite 18014398509481974))) = Finite 18014398509481984 \<and>
   pos_x (nextPosition (Row_addGap (Row_addGap (fst (nextRow Keyboard_new Omitted))
      (Finite 18014398509481974)) (Finite (- 1)))) = Finite 18014398509481984"
  by (simp add: Row_addGap_def nextRow_def Let_def KeyboardRow_new_def deepCopy_def
      Keyboard_new_fields js_add_rounded del: js_add.simps)

subsection \<open>The catalog\<close>

text \<open>
  C8. The factory of the Logitech 2 layout returns a keyboard: the Logitech layout with
  key 96, the one with code \<open>ContextMenu\<close>, relabelled \<open>Fn\<close> with code \<open>Fn\<close>, and the index
  rebuilt. No key of it has the code \<open>ContextMenu\<close>, and a key-up for \<open>ContextMenu\<close> leaves
  the keyboard as it is; a key-up for \<open>Fn\<close> takes key 96 from \<open>NeverPressed\<close> to
  \<open>Pressed\<close>.
\<close>

theorem derived_layout_relabels:
  "\<exists>kb. getWindowsLogitech2Keyboard = Inr kb \<and>
     keyCode (keys getWindowsLogitechKeyboard ! 96) = ''ContextMenu'' \<and>
     keys kb = (keys getWindowsLogitechKeyboard)
       [96 := (keys getWindowsLogitechKeyboard ! 96)\<lparr>displayChar := ''Fn'', keyCode := ''Fn''\<rparr>] \<and>
     remap kb = kb \<and>
     ''ContextMenu'' \<notin> set (map keyCode (keys kb)) \<and>
     onKeyUp kb ''ContextMenu'' = Inr kb \<and>
     keyCode (keys kb ! 96) = ''Fn'' \<and>
     state (keys kb ! 96) = NeverPressed \<and>
     onKeyUp kb ''Fn'' = Inr (set_state kb 96 Pressed) \<and>
     keys (set_state kb 96 Pressed) = (keys kb)[96 := (keys kb ! 96)\<lparr>state := Pressed\<rparr>] \<and>
     state (keys (set_state kb 96 Pressed) ! 96) = Pressed"
proof -
  obtain kb where kb: "getWindowsLogitech2Keyboard = Inr kb"
    by (simp add: getWindowsLogitech2Keyboard_value)
  note ext = getWindowsLogitechKeyboard_extends
  note k = getWindowsLogitech2Keyboard_keys [OF kb]
  note codes = getWindowsLogitech2Keyboard_codes [OF kb]
  have old: "keyCode (keys getWindowsLogitechKeyboard ! 96) = ''ContextMenu''"
    by (simp add: extends_by_new_nth(1) [OF ext])
  have notin: "''ContextMenu'' \<notin> set (map keyCode (keys kb))"
    by (simp add: codes)
  have none: "key_map kb ''ContextMenu'' = None"
    using k(2) notin by (rule indexed_None)
  have up_old: "onKeyUp kb ''ContextMenu'' = Inr kb"
    using none by (simp add: unknown_code_ignored(2) Object_prototype_names_def)
  have new: "keyCode (keys kb ! 96) = ''Fn''"
    by (simp add: k(1) extends_by_new(3) [OF ext])
  have "state (keys kb ! 96) = map state (keys kb) ! 96"
    by (simp add: k(3))
  also have "\<dots> = state (keys getWindowsLogitechKeyboard ! 96)"
    by (simp add: getWindowsLogitech2Keyboard_states [OF kb] extends_by_new(3) [OF ext])
  also have "\<dots> = NeverPressed"
    by (simp add: extends_by_new_nth(2) [OF ext])
  finally have st: "state (keys kb ! 96) = NeverPressed" .
  have "key_map kb (keyCode (keys kb ! 96)) = Some 96"
    using k(2) getWindowsLogitech2Keyboard_distinct [OF kb] by (rule indexed_nth) (simp add: k(3))
  then have up_new: "onKeyUp kb ''Fn'' = Inr (set_state kb 96 Pressed)"
    by (simp add: new onKeyUp_def map_get_def)
  have pressed: "state (keys (set_state kb 96 Pressed) ! 96) = Pressed"
    by (simp add: k(3))
  have set: "keys (set_state kb 96 Pressed) = (keys kb)[96 := (keys kb ! 96)\<lparr>state := Pressed\<rparr>]"
    by (rule keys_set_state)
  from k(2) have re: "remap kb = kb" by (simp add: indexed_def)
  note k1 = k(1)
  show ?thesis
    by (intro exI [of _ kb] conjI) (fact kb old k1 re notin up_old new st up_new set pressed)+
qed

text \<open>
  C9. The catalog has five models, and the factory of each returns a keyboard no two
  keys of which have the same key code.
\<close>

theorem catalog_key_codes_distinct:
  "map model_id getOptions = [''cheap'', ''hp-lowend'', ''logitech'', ''logitech2'', ''macbookpro''] \<and>
   (\<forall>m \<in> set getOptions. \<exists>kb. model_keyboard m = Inr kb \<and> distinct (map keyCode (keys kb)))"
proof -
  obtain kb where kb: "getWindowsLogitech2Keyboard = Inr kb"
    by (simp add: getWindowsLogitech2Keyboard_value)
  from getWindowsLogitech2Keyboard_distinct [OF kb] kb
  have "\<exists>kb. getWindowsLogitech2Keyboard = Inr kb \<and> distinct (map keyCode (keys kb))"
    by blast
  then show ?thesis
    by (simp add: getOptions_def KeyboardModel_new_def getWindowsGenericKeyboard_distinct
        getWindowsHPDesktopKeyboard_distinct getWindowsLogitechKeyboard_distinct
        getMacBookProKeyboard_distinct)
qed

theorem catalog_key_codes_distinct_witness:
  "KeyboardModel_new ''macbookpro'' ''Macbook Pro'' (Inr getMacBookProKeyboard) \<in> set getOptions \<and>
   (\<exists>kb. model_keyboard (KeyboardModel_new ''macbookpro'' ''Macbook Pro''
        (Inr getMacBookProKeyboard)) = Inr kb \<and> distinct (map keyCode (keys kb)))"
proof -
  have m: "KeyboardModel_new ''macbookpro'' ''Macbook Pro'' (Inr getMacBookProKeyboard)
      \<in> set getOptions"
    by (simp add: getOptions_def)
  from catalog_key_codes_distinct [THEN conjunct2, THEN bspec, OF m] m show ?thesis
    by simp
qed

end
